theory Spec2Isabelle
  imports Complex_Main "HOL-Library.Char_ord" "HOL-Library.List_Lexorder"
begin

section \<open>Python values\<close>

text \<open>
  The scoring engine of AstroPulse works on JSON payloads decoded by Python: events are
  dictionaries from string keys to loosely typed values, time series are lists of rows.
  A value is \<open>None\<close>, a boolean, a number, a string, a list or a dictionary whose pairs
  have distinct keys.

  Numbers are exact rationals. The constants of the scorers are short decimal fractions,
  and sums, products and comparisons are made on the exact values, where Python computes
  with binary floating point; infinities and NaN have no value here.

  Strings are lists of bytes (UTF-8). The scorers only test ASCII characters of a string.

  Every exception the modelled code can raise is a value of type \<open>error\<close>, and a
  function that can raise returns \<open>error + 'a\<close>.
\<close>

datatype error = ValueError | TypeError | AttributeError | KeyError | IndexError | OverflowError

datatype jval =
    JNull
  | JBool bool
  | JNum rat
  | JStr string
  | JArr "jval list"
  | JObj "(string \<times> jval) list"

type_synonym event = "string \<rightharpoonup> jval"

text \<open>\<open>d.get(k, default)\<close> and \<open>d.get(k)\<close>, whose default is \<open>None\<close>.\<close>

definition get :: "event \<Rightarrow> string \<Rightarrow> jval \<Rightarrow> jval" where
  "get d k dflt = (case d k of Some v \<Rightarrow> v | None \<Rightarrow> dflt)"

definition get_none :: "event \<Rightarrow> string \<Rightarrow> jval" where
  "get_none d k = get d k JNull"

text \<open>Truth value of an object, as \<open>if x\<close> and \<open>not x\<close> test it.\<close>

fun truthy :: "jval \<Rightarrow> bool" where
  "truthy JNull = False"
| "truthy (JBool b) = b"
| "truthy (JNum r) = (r \<noteq> 0)"
| "truthy (JStr s) = (s \<noteq> [])"
| "truthy (JArr xs) = (xs \<noteq> [])"
| "truthy (JObj kvs) = (kvs \<noteq> [])"

text \<open>\<open>str.upper\<close> on one ASCII character; other bytes are left as they are.\<close>

definition upper_char :: "char \<Rightarrow> char" where
  "upper_char c =
     (if 97 \<le> (of_char c :: nat) \<and> (of_char c :: nat) \<le> 122
      then char_of ((of_char c :: nat) - 32) else c)"

text \<open>
  The expression \<open>class_type[0].upper()\<close>. On a string it is the upper-cased first
  character. Subscripting a number, a boolean or \<open>None\<close> raises TypeError, a dictionary
  has no key \<open>0\<close>, and the first element of a list has \<open>upper\<close> only when it is a string.
\<close>

fun first_char_upper :: "jval \<Rightarrow> error + string" where
  "first_char_upper (JStr []) = Inl IndexError"
| "first_char_upper (JStr (c # cs)) = Inr [upper_char c]"
| "first_char_upper (JArr []) = Inl IndexError"
| "first_char_upper (JArr (JStr t # xs)) = Inr (map upper_char t)"
| "first_char_upper (JArr (x # xs)) = Inl AttributeError"
| "first_char_upper (JObj kvs) = Inl KeyError"
| "first_char_upper x = Inl TypeError"

section \<open>Severity classifiers (app/api/routes/alerts.py)\<close>

definition classify_flare_severity :: "jval \<Rightarrow> error + string" where
  "classify_flare_severity class_type =
     (if \<not> truthy class_type then Inr ''unknown''
      else case first_char_upper class_type of
             Inl e \<Rightarrow> Inl e
           | Inr first_char \<Rightarrow>
               Inr (if first_char \<in> set [''X''] then ''extreme''
                    else if first_char \<in> set [''M''] then ''high''
                    else if first_char \<in> set [''C''] then ''moderate''
                    else ''low''))"

definition classify_cme_severity :: "rat \<Rightarrow> string" where
  "classify_cme_severity speed =
     (if speed \<ge> 2000 then ''extreme''
      else if speed \<ge> 1000 then ''high''
      else if speed \<ge> 500 then ''moderate''
      else ''low'')"

section \<open>Flare scorer (app/ml/solar_flare_predictor.py)\<close>

text \<open>
  The methods of \<open>SolarFlarePredictor\<close>. A leading underscore of a Python name is dropped.
  The attributes set by \<open>__init__\<close> are constants; the reading of the clock behind
  \<open>datetime.utcnow().isoformat()\<close> is the parameter \<open>now\<close>.
\<close>

definition model_version :: string where
  "model_version = ''1.0.0''"

definition accuracy :: rat where
  "accuracy = 0.78"

record class_prediction =
  probability :: rat
  description :: string
  severity :: string

record class_predictions =
  C_class :: class_prediction
  M_class :: class_prediction
  X_class :: class_prediction

record flare_prediction =
  timestamp :: string
  forecast_period :: string
  fp_model_version :: string
  confidence :: rat
  predictions :: class_predictions
  risk_level :: string
  recommendations :: "string list"

text \<open>
  The loop over \<open>recent_flares\<close> that fills the dictionary \<open>flare_counts\<close>. A flare
  whose \<open>classType\<close> is absent or falsy is skipped; a first character that is not a key
  of the dictionary is not counted.
\<close>

fun count_flares :: "event list \<Rightarrow> (string \<rightharpoonup> nat) \<Rightarrow> error + (string \<rightharpoonup> nat)" where
  "count_flares [] flare_counts = Inr flare_counts"
| "count_flares (flare # rest) flare_counts =
     (let class_type = get flare ''classType'' (JStr []) in
      if truthy class_type then
        (case first_char_upper class_type of
           Inl e \<Rightarrow> Inl e
         | Inr first_char \<Rightarrow>
             (case flare_counts first_char of
                Some n \<Rightarrow> count_flares rest (flare_counts(first_char \<mapsto> n + 1))
              | None \<Rightarrow> count_flares rest flare_counts))
      else count_flares rest flare_counts)"

text \<open>
  \<open>flare_counts[k]\<close> for one of the three keys the dictionary is created with; the loop
  never removes a key.
\<close>

definition count_at :: "(string \<rightharpoonup> nat) \<Rightarrow> string \<Rightarrow> rat" where
  "count_at flare_counts k = (case flare_counts k of Some n \<Rightarrow> of_nat n | None \<Rightarrow> 0)"

definition calculate_activity_score :: "event list \<Rightarrow> error + rat" where
  "calculate_activity_score recent_flares =
     (if recent_flares = [] then Inr 0.2
      else case count_flares recent_flares [''X'' \<mapsto> 0, ''M'' \<mapsto> 0, ''C'' \<mapsto> 0] of
             Inl e \<Rightarrow> Inl e
           | Inr flare_counts \<Rightarrow>
               (let score = (count_at flare_counts ''X'' * 0.9
                             + count_at flare_counts ''M'' * 0.6
                             + count_at flare_counts ''C'' * 0.3) / 10
                in Inr (min (score + 0.2) 0.9)))"

definition analyze_solar_wind :: "jval list \<Rightarrow> rat" where
  "analyze_solar_wind solar_wind_data =
     (if solar_wind_data = [] \<or> length solar_wind_data < 5 then 0.5
      else let data_quality = of_nat (length solar_wind_data) / 100
           in min (0.3 + data_quality * 0.4) 0.8)"

definition analyze_xray_flux :: "jval list \<Rightarrow> rat" where
  "analyze_xray_flux xray_flux =
     (if xray_flux = [] \<or> length xray_flux < 5 then 0.5
      else let recent_values = (if length xray_flux \<ge> 10
                                then drop (length xray_flux - 10) xray_flux else xray_flux);
               trend_score = 0.5 + of_nat (length recent_values) / 100
           in min trend_score 0.8)"

definition calculate_risk_level :: "rat \<Rightarrow> string" where
  "calculate_risk_level score =
     (if score \<ge> 0.7 then ''HIGH''
      else if score \<ge> 0.5 then ''MODERATE''
      else if score \<ge> 0.3 then ''LOW''
      else ''MINIMAL'')"

definition generate_recommendations :: "rat \<Rightarrow> string list" where
  "generate_recommendations score =
     (if score \<ge> 0.7 then
        [''Satellite operators should prepare for possible disruptions'',
         ''Monitor communication systems closely'',
         ''GPS accuracy may be affected'',
         ''Power grid operators should be on alert'',
         ''Consider postponing sensitive space operations'']
      else if score \<ge> 0.5 then
        [''Maintain awareness of space weather conditions'',
         ''Monitor alerts for any rapid changes'',
         ''Satellite operators should review contingency plans'',
         ''Aviation routes over polar regions may be affected'']
      else if score \<ge> 0.3 then
        [''Normal operations expected'',
         ''Continue routine space weather monitoring'',
         ''Low risk of significant impacts'']
      else
        [''Minimal solar activity expected'',
         ''Excellent conditions for space operations'',
         ''Low probability of disturbances''])"

text \<open>
  \<open>predict_flare_probability\<close> in two steps: the local \<open>base_score\<close> (the three scores
  and their weighted sum), and the dictionary built from it.
\<close>

definition base_score :: "event list \<Rightarrow> jval list \<Rightarrow> jval list \<Rightarrow> error + rat" where
  "base_score recent_flares solar_wind_data xray_flux =
     (case calculate_activity_score recent_flares of
        Inl e \<Rightarrow> Inl e
      | Inr recent_activity_score \<Rightarrow>
          (let solar_wind_score = analyze_solar_wind solar_wind_data;
               xray_score = analyze_xray_flux xray_flux
           in Inr (recent_activity_score * 0.5 + solar_wind_score * 0.3 + xray_score * 0.2)))"

definition flare_predictions_of :: "string \<Rightarrow> rat \<Rightarrow> flare_prediction" where
  "flare_predictions_of now score =
     \<lparr> timestamp = now,
       forecast_period = ''24-48 hours'',
       fp_model_version = model_version,
       confidence = accuracy,
       predictions =
         \<lparr> C_class = \<lparr> probability = min (score * 1.2) 0.95,
                       description = ''Minor flares, little impact'',
                       severity = ''low'' \<rparr>,
           M_class = \<lparr> probability = min (score * 0.6) 0.75,
                       description = ''Moderate flares, possible radio blackouts'',
                       severity = ''moderate'' \<rparr>,
           X_class = \<lparr> probability = min (score * 0.3) 0.45,
                       description = ''Major flares, significant impacts possible'',
                       severity = ''high'' \<rparr> \<rparr>,
       risk_level = calculate_risk_level score,
       recommendations = generate_recommendations score \<rparr>"

definition predict_flare_probability ::
  "string \<Rightarrow> event list \<Rightarrow> jval list \<Rightarrow> jval list \<Rightarrow> error + flare_prediction" where
  "predict_flare_probability now recent_flares solar_wind_data xray_flux =
     (case base_score recent_flares solar_wind_data xray_flux of
        Inl e \<Rightarrow> Inl e
      | Inr score \<Rightarrow> Inr (flare_predictions_of now score))"

section \<open>Built-in functions of Python used by the scorers\<close>

text \<open>
  \<open>round(x, n)\<close> rounds to \<open>n\<close> decimals, a tie going to the even neighbour. The tie
  is one of the exact value; Python rounds the binary float, which is seldom a tie.
\<close>

definition round_half_even :: "rat \<Rightarrow> int" where
  "round_half_even x =
     (let f = \<lfloor>x\<rfloor>; d = x - of_int f
      in if d < 1 / 2 then f else if d > 1 / 2 then f + 1 else if even f then f else f + 1)"

definition py_round :: "rat \<Rightarrow> nat \<Rightarrow> rat" where
  "py_round x n = of_int (round_half_even (x * 10 ^ n)) / 10 ^ n"

text \<open>
  \<open>float(s)\<close> on a string: surrounding blanks, a sign, decimal digits with an optional
  fraction and an optional exponent. Python also converts the spellings of infinities and
  NaN and digits grouped by underscores; they have no value in this model and are
  answered by ValueError.
\<close>

definition is_digit :: "char \<Rightarrow> bool" where
  "is_digit c = (c \<in> set ''0123456789'')"

definition digits_val :: "string \<Rightarrow> nat" where
  "digits_val s = foldl (\<lambda>a c. 10 * a + ((of_char c :: nat) - 48)) 0 s"

definition num_of :: "string \<Rightarrow> nat option" where
  "num_of s = (if s \<noteq> [] \<and> list_all is_digit s then Some (digits_val s) else None)"

definition is_space :: "char \<Rightarrow> bool" where
  "is_space c = (c \<in> set [CHR '' '', CHR 0x09, CHR 0x0A, CHR 0x0B, CHR 0x0C, CHR 0x0D])"

definition strip :: "string \<Rightarrow> string" where
  "strip s = rev (dropWhile is_space (rev (dropWhile is_space s)))"

definition parse_decimal :: "string \<Rightarrow> rat option" where
  "parse_decimal s =
     (let ip = takeWhile (\<lambda>c. c \<noteq> CHR ''.'') s;
          fp = drop 1 (dropWhile (\<lambda>c. c \<noteq> CHR ''.'') s)
      in if list_all is_digit ip \<and> list_all is_digit fp \<and> (ip \<noteq> [] \<or> fp \<noteq> [])
         then Some (of_nat (digits_val ip) + of_nat (digits_val fp) / 10 ^ length fp)
         else None)"

definition parse_exponent :: "string \<Rightarrow> int option" where
  "parse_exponent s =
     (case s of
        c # t \<Rightarrow>
          (if c = CHR ''-'' then map_option (\<lambda>n. - int n) (num_of t)
           else if c = CHR ''+'' then map_option int (num_of t)
           else map_option int (num_of s))
      | [] \<Rightarrow> None)"

definition parse_unsigned :: "string \<Rightarrow> rat option" where
  "parse_unsigned s =
     (let is_e = (\<lambda>c. c = CHR ''e'' \<or> c = CHR ''E'');
          mant = takeWhile (\<lambda>c. \<not> is_e c) s;
          rest = dropWhile (\<lambda>c. \<not> is_e c) s
      in case parse_decimal mant of
           None \<Rightarrow> None
         | Some m \<Rightarrow>
             (if rest = [] then Some m
              else case parse_exponent (drop 1 rest) of
                     None \<Rightarrow> None
                   | Some e \<Rightarrow> Some (if e \<ge> 0 then m * 10 ^ nat e else m / 10 ^ nat (- e))))"

definition float_of_string :: "string \<Rightarrow> rat option" where
  "float_of_string s =
     (case strip s of
        c # t \<Rightarrow>
          (if c = CHR ''-'' then map_option uminus (parse_unsigned t)
           else if c = CHR ''+'' then parse_unsigned t
           else parse_unsigned (c # t))
      | [] \<Rightarrow> None)"

text \<open>\<open>float(x)\<close>: a number or a boolean converts, a string is parsed, anything else is a TypeError.\<close>

fun py_float :: "jval \<Rightarrow> error + rat" where
  "py_float (JNum r) = Inr r"
| "py_float (JBool b) = Inr (if b then 1 else 0)"
| "py_float (JStr s) = (case float_of_string s of Some r \<Rightarrow> Inr r | None \<Rightarrow> Inl ValueError)"
| "py_float x = Inl TypeError"

text \<open>\<open>len(x)\<close> and \<open>x[i]\<close> for an index \<open>i\<close> below the length.\<close>

fun py_len :: "jval \<Rightarrow> error + nat" where
  "py_len (JArr xs) = Inr (length xs)"
| "py_len (JStr s) = Inr (length s)"
| "py_len (JObj kvs) = Inr (length kvs)"
| "py_len x = Inl TypeError"

fun py_item :: "jval \<Rightarrow> nat \<Rightarrow> error + jval" where
  "py_item (JArr xs) i = (if i < length xs then Inr (xs ! i) else Inl IndexError)"
| "py_item (JStr s) i = (if i < length s then Inr (JStr [s ! i]) else Inl IndexError)"
| "py_item (JObj kvs) i = Inl KeyError"
| "py_item x i = Inl TypeError"

text \<open>
  A formatted string literal, kept as its pieces: literal text, a value printed by
  \<open>str\<close>, and a number printed with one decimal (\<open>:.1f\<close>).
\<close>

datatype piece = Lit string | Val jval | Fix1 rat

type_synonym fstring = "piece list"

section \<open>Geomagnetic storm scorer (app/ml/solar_flare_predictor.py)\<close>

text \<open>
  The dictionary returned by \<open>predict_geomagnetic_storm\<close> has two shapes; a key that a
  shape does not have is \<open>None\<close> in the record.
\<close>

record geomag_prediction =
  gm_timestamp :: "string option"
  current_kp :: "rat option"
  predicted_max_kp :: "rat option"
  max_kp_predicted :: "rat option"
  storm_probability :: rat
  storm_level :: string
  gm_forecast_period :: "string option"
  impacts :: "string list option"

text \<open>
  The comprehension \<open>[float(kp[1]) if len(kp) > 1 else 0 for kp in ...]\<close>, element by
  element; the first exception ends it.
\<close>

definition kp_value :: "jval \<Rightarrow> error + rat" where
  "kp_value kp =
     (case py_len kp of
        Inl e \<Rightarrow> Inl e
      | Inr n \<Rightarrow>
          (if n > 1 then (case py_item kp 1 of Inl e \<Rightarrow> Inl e | Inr v \<Rightarrow> py_float v)
           else Inr 0))"

fun kp_values :: "jval list \<Rightarrow> error + rat list" where
  "kp_values [] = Inr []"
| "kp_values (kp # rest) =
     (case kp_value kp of
        Inl e \<Rightarrow> Inl e
      | Inr v \<Rightarrow> (case kp_values rest of Inl e \<Rightarrow> Inl e | Inr vs \<Rightarrow> Inr (v # vs)))"

text \<open>\<open>np.mean\<close> of a non-empty list.\<close>

definition mean :: "rat list \<Rightarrow> rat" where
  "mean xs = sum_list xs / of_nat (length xs)"

definition predict_geomagnetic_storm :: "string \<Rightarrow> jval list \<Rightarrow> bool \<Rightarrow> error + geomag_prediction" where
  "predict_geomagnetic_storm now kp_history cme_incoming =
     (if kp_history = [] then
        Inr \<lparr> gm_timestamp = None, current_kp = None, predicted_max_kp = None,
              max_kp_predicted = Some 2, storm_probability = 0.1, storm_level = ''None'',
              gm_forecast_period = None, impacts = None \<rparr>
      else case kp_values (drop (length kp_history - 5) kp_history) of
        Inl e \<Rightarrow> Inl e
      | Inr recent_kp \<Rightarrow>
          (let avg_kp = (if recent_kp \<noteq> [] then mean recent_kp else 0);
               predicted_kp = (if cme_incoming then min (avg_kp + 3) 9 else min (avg_kp + 1) 7);
               storm_prob = (if cme_incoming then 0.85 else if avg_kp > 4 then 0.3 else 0.1);
               level = (if predicted_kp \<ge> 7 then ''Severe (G4-G5)''
                        else if predicted_kp \<ge> 5 then ''Moderate (G2-G3)''
                        else ''Minor (G1) or None'');
               imp = (if predicted_kp \<ge> 7 then
                        [''Widespread power grid problems possible'',
                         ''Spacecraft operations significantly affected'',
                         ''HF radio blackouts in many areas'',
                         ''GPS navigation errors likely'']
                      else if predicted_kp \<ge> 5 then
                        [''Power systems may experience voltage alarms'',
                         ''Spacecraft may need corrective actions'',
                         ''HF radio propagation affected'',
                         ''GPS accuracy reduced'']
                      else
                        [''Minimal impact expected'',
                         ''Possible minor fluctuations in power grids'',
                         ''Aurora visible at high latitudes''])
           in Inr \<lparr> gm_timestamp = Some now,
                    current_kp = Some (py_round avg_kp 1),
                    predicted_max_kp = Some (py_round predicted_kp 1),
                    max_kp_predicted = None,
                    storm_probability = py_round storm_prob 2,
                    storm_level = level,
                    gm_forecast_period = Some ''24 hours'',
                    impacts = Some imp \<rparr>))"

section \<open>CME arrival estimator (app/ml/solar_flare_predictor.py)\<close>

text \<open>
  \<open>datetime.fromisoformat\<close> is modelled on the layouts \<open>YYYY-MM-DD\<close>,
  \<open>YYYY-MM-DD?HH:MM\<close> and \<open>YYYY-MM-DD?HH:MM:SS\<close> (\<open>?\<close> is any one character), the
  last two with an optional offset \<open>+HH:MM\<close> or \<open>-HH:MM\<close>, and with every field in its
  calendar range. Python parses each of them to the value given here. Python parses more
  layouts: an hour alone, fractions of a second, offsets with seconds, and from version
  3.11 most other ISO 8601 formats. They are outside the model, which answers ValueError
  for them. The empty string is rejected by Python and by the model alike.
\<close>

record datetime =
  dt_year :: nat
  dt_month :: nat
  dt_day :: nat
  dt_hour :: nat
  dt_minute :: nat
  dt_second :: nat
  dt_utcoffset :: "int option"

definition is_leap :: "nat \<Rightarrow> bool" where
  "is_leap y = (y mod 4 = 0 \<and> (y mod 100 \<noteq> 0 \<or> y mod 400 = 0))"

definition days_in_month :: "nat \<Rightarrow> nat \<Rightarrow> nat" where
  "days_in_month y m =
     (if m = 2 then (if is_leap y then 29 else 28)
      else if m \<in> set [4, 6, 9, 11] then 30 else 31)"

definition parse_date :: "string \<Rightarrow> (nat \<times> nat \<times> nat) option" where
  "parse_date s =
     (if length s = 10 \<and> s ! 4 = CHR ''-'' \<and> s ! 7 = CHR ''-'' then
        (case (num_of (take 4 s), num_of (take 2 (drop 5 s)), num_of (drop 8 s)) of
           (Some y, Some m, Some d) \<Rightarrow>
             (if 1 \<le> y \<and> 1 \<le> m \<and> m \<le> 12 \<and> 1 \<le> d \<and> d \<le> days_in_month y m
              then Some (y, m, d) else None)
         | _ \<Rightarrow> None)
      else None)"

definition parse_hms :: "string \<Rightarrow> (nat \<times> nat \<times> nat) option" where
  "parse_hms s =
     (if (length s = 5 \<or> length s = 8 \<and> s ! 5 = CHR '':'') \<and> s ! 2 = CHR '':'' then
        (case (num_of (take 2 s), num_of (take 2 (drop 3 s)),
               if length s = 8 then num_of (drop 6 s) else Some 0) of
           (Some h, Some mi, Some sec) \<Rightarrow>
             (if h < 24 \<and> mi < 60 \<and> sec < 60 then Some (h, mi, sec) else None)
         | _ \<Rightarrow> None)
      else None)"

definition parse_offset :: "string \<Rightarrow> int option option" where
  "parse_offset s =
     (if s = [] then Some None
      else if length s = 6 \<and> s ! 3 = CHR '':'' then
        (case (num_of (take 2 (drop 1 s)), num_of (drop 4 s)) of
           (Some h, Some mi) \<Rightarrow>
             (if h < 24 \<and> mi < 60
              then Some (Some ((if s ! 0 = CHR ''-'' then - 1 else 1) * int (60 * h + mi)))
              else None)
         | _ \<Rightarrow> None)
      else None)"

definition fromisoformat :: "string \<Rightarrow> error + datetime" where
  "fromisoformat s =
     (let is_sign = (\<lambda>c. c = CHR ''+'' \<or> c = CHR ''-'');
          tstr = drop 11 s;
          hms = (if length s \<le> 10 then Some (0, 0, 0)
                 else parse_hms (takeWhile (\<lambda>c. \<not> is_sign c) tstr));
          off = (if length s \<le> 10 then Some None
                 else parse_offset (dropWhile (\<lambda>c. \<not> is_sign c) tstr))
      in case (parse_date (take 10 s), hms, off) of
           (Some (y, m, d), Some (h, mi, sec), Some tz) \<Rightarrow>
             Inr \<lparr> dt_year = y, dt_month = m, dt_day = d, dt_hour = h, dt_minute = mi,
                   dt_second = sec, dt_utcoffset = tz \<rparr>
         | _ \<Rightarrow> Inl ValueError)"

text \<open>\<open>s.replace('Z', '+00:00')\<close>; only a string has the method.\<close>

fun replace_Z :: "jval \<Rightarrow> error + string" where
  "replace_Z (JStr s) = Inr (concat (map (\<lambda>c. if c = CHR ''Z'' then ''+00:00'' else [c]) s))"
| "replace_Z x = Inl AttributeError"

text \<open>
  A point in time as microseconds from 0001-01-01T00:00:00 on the local calendar, with
  the offset it was written with. \<open>timedelta(hours=h)\<close> is \<open>h\<close> hours rounded to a
  microsecond. Adding it to a datetime raises OverflowError outside the years 1 to 9999.
\<close>

record instant =
  micros :: int
  utcoffset :: "int option"

definition days_before_year :: "nat \<Rightarrow> int" where
  "days_before_year y =
     (let p = int y - 1 in p * 365 + p div 4 - p div 100 + p div 400)"

definition days_before_month :: "nat \<Rightarrow> nat \<Rightarrow> int" where
  "days_before_month y m = int (sum_list (map (days_in_month y) [1 ..< m]))"

definition to_micros :: "datetime \<Rightarrow> int" where
  "to_micros d =
     ((((days_before_year (dt_year d) + days_before_month (dt_year d) (dt_month d)
         + (int (dt_day d) - 1)) * 24 + int (dt_hour d)) * 60 + int (dt_minute d)) * 60
       + int (dt_second d)) * 1000000"

definition timedelta_hours :: "rat \<Rightarrow> int" where
  "timedelta_hours h = round_half_even (h * 3600000000)"

definition add_timedelta :: "datetime \<Rightarrow> int \<Rightarrow> error + instant" where
  "add_timedelta d delta =
     (let t = to_micros d + delta
      in if 0 \<le> t \<and> t < days_before_year 10000 * 86400000000
         then Inr \<lparr> micros = t, utcoffset = dt_utcoffset d \<rparr>
         else Inl OverflowError)"

text \<open>
  The dictionary returned by \<open>predict_cme_arrival\<close>, in its two shapes. The value of
  \<open>estimated_arrival\<close> is the arrival time itself, not the string \<open>isoformat\<close> prints.
\<close>

record cme_prediction =
  arrival_time :: "jval option"
  message :: "string option"
  detection_time :: "jval option"
  cme_speed :: "fstring option"
  estimated_arrival :: "instant option"
  arrival_window :: "fstring option"
  impact_probability :: rat
  cme_severity :: "string option"
  warnings :: "string list option"

definition predict_cme_arrival :: "rat \<Rightarrow> jval \<Rightarrow> error + cme_prediction" where
  "predict_cme_arrival speed detection =
     (if speed = 0 \<or> speed < 200 then
        Inr \<lparr> arrival_time = Some JNull,
              message = Some ''CME not Earth-directed or too slow'',
              detection_time = None, cme_speed = None, estimated_arrival = None,
              arrival_window = None, impact_probability = 0, cme_severity = None,
              warnings = None \<rparr>
      else
        (let distance_km = 150000000;
             travel_time_hours = distance_km / (speed * 3600)
         in case replace_Z detection of
              Inl e \<Rightarrow> Inl e
            | Inr s \<Rightarrow>
           (case fromisoformat s of
              Inl e \<Rightarrow> Inl e
            | Inr detection_dt \<Rightarrow>
           (case add_timedelta detection_dt (timedelta_hours travel_time_hours) of
              Inl e \<Rightarrow> Inl e
            | Inr arrival \<Rightarrow>
                (let impact_prob = min ((speed / 2000) * 0.8) 0.95
                 in Inr \<lparr> arrival_time = None,
                          message = None,
                          detection_time = Some detection,
                          cme_speed = Some [Val (JNum speed), Lit '' km/s''],
                          estimated_arrival = Some arrival,
                          arrival_window =
                            Some [Fix1 (travel_time_hours - 6), Lit '' to '',
                                  Fix1 (travel_time_hours + 6), Lit '' hours''],
                          impact_probability = py_round impact_prob 2,
                          cme_severity = Some (if speed \<ge> 1000 then ''high'' else ''moderate''),
                          warnings =
                            Some (if speed \<ge> 1000 then
                                    [''Geomagnetic storm expected'',
                                     ''Satellite operations may be affected'',
                                     ''Aurora visible at lower latitudes'']
                                  else
                                    [''Minor geomagnetic activity possible'',
                                     ''Aurora may be visible at high latitudes'']) \<rparr>)))))"

section \<open>Radiation storm scorer (app/ml/radiation_predictor.py)\<close>

text \<open>\<open>s.startswith(prefixes)\<close> for a tuple of prefixes, and the substring test \<open>p in s\<close>.\<close>

definition startswith :: "string \<Rightarrow> string list \<Rightarrow> bool" where
  "startswith s prefixes = list_ex (\<lambda>p. take (length p) s = p) prefixes"

fun py_startswith :: "jval \<Rightarrow> string list \<Rightarrow> error + bool" where
  "py_startswith (JStr s) prefixes = Inr (startswith s prefixes)"
| "py_startswith x prefixes = Inl AttributeError"

definition contains :: "string \<Rightarrow> string \<Rightarrow> bool" where
  "contains p s = list_ex (\<lambda>i. take (length p) (drop i s) = p) [0 ..< Suc (length s)]"

record radiation_prediction =
  rad_timestamp :: string
  rad_forecast_period :: string
  radiation_storm_probability :: rat
  predicted_scale :: string
  rad_severity :: string
  rad_confidence :: rat
  rad_impacts :: "string list"
  affected_regions :: "string list"
  rad_recommendations :: "string list"

text \<open>
  The comprehension that selects the flares of class X or M. The method \<open>startswith\<close>
  is called on whatever \<open>classType\<close> holds, and only a string has it. The parameter
  \<open>proton_flux\<close> of \<open>predict_radiation_storm\<close> is never read and is left out.
\<close>

fun high_energy_flares :: "event list \<Rightarrow> error + event list" where
  "high_energy_flares [] = Inr []"
| "high_energy_flares (f # rest) =
     (case py_startswith (get f ''classType'' (JStr [])) [''X'', ''M''] of
        Inl e \<Rightarrow> Inl e
      | Inr b \<Rightarrow>
          (case high_energy_flares rest of
             Inl e \<Rightarrow> Inl e
           | Inr hs \<Rightarrow> Inr (if b then f # hs else hs)))"

definition get_radiation_impacts :: "string \<Rightarrow> string list" where
  "get_radiation_impacts s_scale =
     (if contains ''S3'' s_scale \<or> contains ''S4'' s_scale then
        [''Radiation hazard to astronauts on EVA'',
         ''Satellite operations degraded'',
         ''HF radio blackouts on sunlit side'',
         ''Navigation system errors'',
         ''Increased radiation dose to airline passengers'']
      else if contains ''S1'' s_scale \<or> contains ''S2'' s_scale then
        [''Minor impacts to satellite operations'',
         ''Small effects on HF radio in polar regions'',
         ''Elevated radiation levels for astronauts'',
         ''Minimal impact to aviation'']
      else
        [''Normal background radiation levels'',
         ''No significant impacts expected''])"

definition get_affected_regions :: "string \<Rightarrow> string list" where
  "get_affected_regions s_scale =
     (if contains ''S3'' s_scale \<or> contains ''S4'' s_scale then
        [''Polar regions'', ''High-latitude areas'', ''Global HF communications'']
      else if contains ''S1'' s_scale \<or> contains ''S2'' s_scale then
        [''Polar regions'', ''High-latitude areas'']
      else [''None''])"

definition get_radiation_recommendations :: "string \<Rightarrow> string list" where
  "get_radiation_recommendations s_scale =
     (if contains ''S3'' s_scale \<or> contains ''S4'' s_scale then
        [''Postpone spacewalks if possible'',
         ''Satellite operators: implement mitigation procedures'',
         ''Airlines: consider re-routing polar flights'',
         ''Increased monitoring of radiation levels'']
      else if contains ''S1'' s_scale \<or> contains ''S2'' s_scale then
        [''Monitor radiation levels'',
         ''Limit EVA duration if possible'',
         ''Standard satellite protection adequate'']
      else
        [''Normal operations'',
         ''Standard radiation monitoring''])"

definition predict_radiation_storm :: "string \<Rightarrow> event list \<Rightarrow> error + radiation_prediction" where
  "predict_radiation_storm now recent_flares =
     (case high_energy_flares recent_flares of
        Inl e \<Rightarrow> Inl e
      | Inr hs \<Rightarrow>
          (let base_prob = min (of_nat (length hs) * 0.2) 0.9;
               s_scale = (if length hs \<ge> 3 then ''S3-S4''
                          else if length hs \<ge> 1 then ''S1-S2'' else ''Below S1'');
               sev = (if length hs \<ge> 3 then ''Strong''
                      else if length hs \<ge> 1 then ''Moderate'' else ''Minor'');
               prob = (if length hs \<ge> 3 then min (base_prob * 1.2) 0.85
                       else if length hs \<ge> 1 then base_prob else 0.15)
           in Inr \<lparr> rad_timestamp = now,
                    rad_forecast_period = ''24-72 hours'',
                    radiation_storm_probability = py_round prob 2,
                    predicted_scale = s_scale,
                    rad_severity = sev,
                    rad_confidence = 0.72,
                    rad_impacts = get_radiation_impacts s_scale,
                    affected_regions = get_affected_regions s_scale,
                    rad_recommendations = get_radiation_recommendations s_scale \<rparr>))"

section \<open>Aggregator (app/services/prediction_service.py)\<close>

text \<open>
  The generator under \<open>any\<close> stops at the first CME faster than 1000 km/s; the CMEs
  after it are not read.
\<close>

fun has_fast_cme :: "event list \<Rightarrow> error + bool" where
  "has_fast_cme [] = Inr False"
| "has_fast_cme (cme # rest) =
     (if truthy (get_none cme ''speed'') then
        (case py_float (get cme ''speed'' (JNum 0)) of
           Inl e \<Rightarrow> Inl e
         | Inr v \<Rightarrow> (if v > 1000 then Inr True else has_fast_cme rest))
      else has_fast_cme rest)"

fun fast_cmes :: "event list \<Rightarrow> error + event list" where
  "fast_cmes [] = Inr []"
| "fast_cmes (cme # rest) =
     (if truthy (get_none cme ''speed'') then
        (case py_float (get cme ''speed'' (JNum 0)) of
           Inl e \<Rightarrow> Inl e
         | Inr v \<Rightarrow>
             (case fast_cmes rest of
                Inl e \<Rightarrow> Inl e
              | Inr cs \<Rightarrow> Inr (if v > 500 then cme # cs else cs)))
      else fast_cmes rest)"

record risk_assessment =
  ra_risk_level :: string
  risk_score :: rat
  color :: string
  ra_message :: string
  primary_concerns :: "string list"

record all_predictions =
  solar_flares :: flare_prediction
  geomagnetic_storm :: geomag_prediction
  radiation_storm :: radiation_prediction
  cme_arrival :: "cme_prediction option"

record comprehensive =
  status :: string
  generated_at :: string
  cp_predictions :: all_predictions
  overall_risk_assessment :: risk_assessment

text \<open>\<open>mapping.get(risk_level, 0.3)\<close> on the dictionary of the four levels.\<close>

definition risk_to_score :: "string \<Rightarrow> rat" where
  "risk_to_score level =
     (case map_of [(''HIGH'', 0.85), (''MODERATE'', 0.6), (''LOW'', 0.3), (''MINIMAL'', 0.1)] level of
        Some v \<Rightarrow> v
      | None \<Rightarrow> 0.3)"

text \<open>
  The three predictions are the records the scorers build; every key read from them is a
  field of the record, so no default of \<open>get\<close> is taken.
\<close>

definition get_primary_concerns ::
  "flare_prediction \<Rightarrow> geomag_prediction \<Rightarrow> radiation_prediction \<Rightarrow> string list" where
  "get_primary_concerns flare_pred geomag_pred rad_pred =
     (let concerns = [];
          concerns = (if risk_level flare_pred \<in> set [''HIGH'', ''MODERATE'']
                      then concerns @ [''Solar flare activity''] else concerns);
          concerns = (if storm_probability geomag_pred > 0.5
                      then concerns @ [''Geomagnetic disturbances''] else concerns);
          concerns = (if radiation_storm_probability rad_pred > 0.5
                      then concerns @ [''Radiation hazards''] else concerns);
          concerns = (if concerns = []
                      then concerns @ [''No significant concerns''] else concerns)
      in concerns)"

definition calculate_overall_risk ::
  "flare_prediction \<Rightarrow> geomag_prediction \<Rightarrow> radiation_prediction \<Rightarrow> risk_assessment" where
  "calculate_overall_risk flare_pred geomag_pred rad_pred =
     (let flare_risk = risk_to_score (risk_level flare_pred);
          geomag_risk = storm_probability geomag_pred;
          rad_risk = radiation_storm_probability rad_pred;
          overall_score = flare_risk * 0.4 + geomag_risk * 0.35 + rad_risk * 0.25
      in \<lparr> ra_risk_level = (if overall_score \<ge> 0.7 then ''HIGH''
                             else if overall_score \<ge> 0.5 then ''ELEVATED''
                             else if overall_score \<ge> 0.3 then ''MODERATE'' else ''LOW''),
           risk_score = py_round overall_score 2,
           color = (if overall_score \<ge> 0.7 then ''red''
                    else if overall_score \<ge> 0.5 then ''orange''
                    else if overall_score \<ge> 0.3 then ''yellow'' else ''green''),
           ra_message = (if overall_score \<ge> 0.7 then ''Significant space weather activity expected''
                         else if overall_score \<ge> 0.5 then ''Moderate space weather activity possible''
                         else if overall_score \<ge> 0.3 then ''Minor space weather activity possible''
                         else ''Quiet space weather conditions expected''),
           primary_concerns = get_primary_concerns flare_pred geomag_pred rad_pred \<rparr>)"

text \<open>
  The CME arrival prediction: \<open>None\<close> unless some CME is faster than 500 km/s, else the
  prediction for the last such CME.
\<close>

definition latest_cme_arrival :: "event list \<Rightarrow> error + cme_prediction option" where
  "latest_cme_arrival cme_events =
     (if cme_events \<noteq> [] then
        (case fast_cmes cme_events of
           Inl e \<Rightarrow> Inl e
         | Inr cs \<Rightarrow>
             (if cs \<noteq> [] then
                (let latest_cme = last cs
                 in case py_float (get latest_cme ''speed'' (JNum 0)) of
                      Inl e \<Rightarrow> Inl e
                    | Inr speed \<Rightarrow>
                        (case predict_cme_arrival speed (get latest_cme ''startTime'' (JStr [])) of
                           Inl e \<Rightarrow> Inl e
                         | Inr p \<Rightarrow> Inr (Some p)))
              else Inr None))
      else Inr None)"

definition get_comprehensive_predictions ::
  "string \<Rightarrow> string \<Rightarrow> string \<Rightarrow> event list \<Rightarrow> event list \<Rightarrow> jval list \<Rightarrow> jval list
     \<Rightarrow> jval list \<Rightarrow> error + comprehensive" where
  "get_comprehensive_predictions now1 now2 now3 recent_flares cme_events solar_wind xray_flux
       kp_index =
     (case predict_flare_probability now1 recent_flares solar_wind xray_flux of
        Inl e \<Rightarrow> Inl e
      | Inr flare_predictions \<Rightarrow>
     (case has_fast_cme cme_events of
        Inl e \<Rightarrow> Inl e
      | Inr fast \<Rightarrow>
     (case predict_geomagnetic_storm now2 kp_index fast of
        Inl e \<Rightarrow> Inl e
      | Inr geomag_predictions \<Rightarrow>
     (case predict_radiation_storm now3 recent_flares of
        Inl e \<Rightarrow> Inl e
      | Inr radiation_predictions \<Rightarrow>
     (case latest_cme_arrival cme_events of
        Inl e \<Rightarrow> Inl e
      | Inr arrival \<Rightarrow>
          Inr \<lparr> status = ''success'',
                generated_at = timestamp flare_predictions,
                cp_predictions =
                  \<lparr> solar_flares = flare_predictions,
                    geomagnetic_storm = geomag_predictions,
                    radiation_storm = radiation_predictions,
                    cme_arrival = arrival \<rparr>,
                overall_risk_assessment =
                  calculate_overall_risk flare_predictions geomag_predictions
                    radiation_predictions \<rparr>)))))"

section \<open>Alert synthesizer (app/api/routes/alerts.py)\<close>

record alert =
  alert_id :: jval
  alert_type :: string
  alert_severity :: string
  title :: fstring
  alert_description :: fstring
  alert_timestamp :: jval
  source :: string

record alert_response =
  ar_status :: string
  ar_count :: nat
  ar_alerts :: "alert list"

text \<open>The four loops of \<open>get_active_alerts\<close>; each appends to the list \<open>alerts\<close>.\<close>

definition flare_alert :: "event \<Rightarrow> string \<Rightarrow> alert" where
  "flare_alert flare sev =
     \<lparr> alert_id = get_none flare ''flrID'',
       alert_type = ''solar_flare'',
       alert_severity = sev,
       title = [Lit ''Solar Flare '', Val (get flare ''classType'' (JStr ''Unknown'')),
                Lit '' detected''],
       alert_description = [Lit ''Peak time: '', Val (get flare ''peakTime'' (JStr ''N/A''))],
       alert_timestamp = get_none flare ''beginTime'',
       source = ''NASA DONKI'' \<rparr>"

fun process_flares :: "event list \<Rightarrow> alert list \<Rightarrow> error + alert list" where
  "process_flares [] alerts = Inr alerts"
| "process_flares (flare # rest) alerts =
     (case classify_flare_severity (get flare ''classType'' (JStr [])) of
        Inl e \<Rightarrow> Inl e
      | Inr sev \<Rightarrow>
          (if sev \<in> set [''high'', ''extreme'']
           then process_flares rest (alerts @ [flare_alert flare sev])
           else process_flares rest alerts))"

definition cme_alert :: "event \<Rightarrow> rat \<Rightarrow> string \<Rightarrow> alert" where
  "cme_alert cme speed sev =
     \<lparr> alert_id = get_none cme ''activityID'',
       alert_type = ''cme'',
       alert_severity = sev,
       title = [Lit ''Coronal Mass Ejection detected''],
       alert_description = [Lit ''Speed: '', Val (JNum speed), Lit '' km/s''],
       alert_timestamp = get_none cme ''startTime'',
       source = ''NASA DONKI'' \<rparr>"

fun process_cmes :: "event list \<Rightarrow> alert list \<Rightarrow> error + alert list" where
  "process_cmes [] alerts = Inr alerts"
| "process_cmes (cme # rest) alerts =
     (case (if truthy (get_none cme ''speed'') then py_float (get cme ''speed'' (JNum 0))
            else Inr 0) of
        Inl e \<Rightarrow> Inl e
      | Inr speed \<Rightarrow>
          (let sev = classify_cme_severity speed
           in if sev \<in> set [''high'', ''extreme'']
              then process_cmes rest (alerts @ [cme_alert cme speed sev])
              else process_cmes rest alerts))"

text \<open>
  \<open>storm.get("allKpIndex", [{}])[0].get("kpIndex", 0)\<close>: the first element must be a
  dictionary, the only value with the method \<open>get\<close>.
\<close>

definition storm_kp :: "event \<Rightarrow> error + rat" where
  "storm_kp storm =
     (if truthy (get_none storm ''allKpIndex'') then
        (case py_item (get storm ''allKpIndex'' (JArr [JObj []])) 0 of
           Inl e \<Rightarrow> Inl e
         | Inr first \<Rightarrow>
             (case first of
                JObj kvs \<Rightarrow> py_float (case map_of kvs ''kpIndex'' of Some v \<Rightarrow> v | None \<Rightarrow> JNum 0)
              | _ \<Rightarrow> Inl AttributeError))
      else Inr 0)"

definition storm_alert :: "event \<Rightarrow> rat \<Rightarrow> string \<Rightarrow> alert" where
  "storm_alert storm kp_index sev =
     \<lparr> alert_id = get_none storm ''gstID'',
       alert_type = ''geomagnetic_storm'',
       alert_severity = sev,
       title = [Lit ''Geomagnetic Storm (Kp '', Val (JNum kp_index), Lit '')''],
       alert_description = [Lit ''Start time: '', Val (get storm ''startTime'' (JStr ''N/A''))],
       alert_timestamp = get_none storm ''startTime'',
       source = ''NASA DONKI'' \<rparr>"

fun process_storms :: "event list \<Rightarrow> alert list \<Rightarrow> error + alert list" where
  "process_storms [] alerts = Inr alerts"
| "process_storms (storm # rest) alerts =
     (case storm_kp storm of
        Inl e \<Rightarrow> Inl e
      | Inr kp_index \<Rightarrow>
          (let sev = (if kp_index \<ge> 7 then ''high''
                      else if kp_index \<ge> 5 then ''moderate'' else ''low'')
           in if sev \<in> set [''high'', ''extreme'']
              then process_storms rest (alerts @ [storm_alert storm kp_index sev])
              else process_storms rest alerts))"

definition radiation_alert :: "event \<Rightarrow> alert" where
  "radiation_alert rad =
     \<lparr> alert_id = get_none rad ''rbeID'',
       alert_type = ''radiation'',
       alert_severity = ''moderate'',
       title = [Lit ''Radiation Belt Enhancement''],
       alert_description = [Lit ''Event time: '', Val (get rad ''eventTime'' (JStr ''N/A''))],
       alert_timestamp = get_none rad ''eventTime'',
       source = ''NASA DONKI'' \<rparr>"

fun process_radiation :: "event list \<Rightarrow> alert list \<Rightarrow> alert list" where
  "process_radiation [] alerts = alerts"
| "process_radiation (rad # rest) alerts = process_radiation rest (alerts @ [radiation_alert rad])"

text \<open>
  \<open>alerts.sort(key=..., reverse=True)\<close>: a stable sort, largest key first. The keys are
  the timestamps. Two strings compare by their characters and two numbers by value; a
  comparison that involves \<open>None\<close> or a dictionary, or a string with a number, raises
  TypeError, and a list of two or more alerts cannot be sorted without comparing every
  key with some other. Python also compares two lists, element by element; keys that are
  lists are outside the model, which answers TypeError for them. A list of at most one
  alert is sorted without any comparison.
\<close>

fun key_class :: "jval \<Rightarrow> nat" where
  "key_class (JStr s) = 1"
| "key_class (JNum r) = 2"
| "key_class (JBool b) = 2"
| "key_class x = 0"

fun num_val :: "jval \<Rightarrow> rat" where
  "num_val (JNum r) = r"
| "num_val (JBool b) = (if b then 1 else 0)"
| "num_val x = 0"

fun key_lt :: "jval \<Rightarrow> jval \<Rightarrow> bool" where
  "key_lt (JStr a) (JStr b) = (a < b)"
| "key_lt x y = (num_val x < num_val y)"

definition comparable :: "jval list \<Rightarrow> bool" where
  "comparable keys = (list_all (\<lambda>k. key_class k = 1) keys \<or> list_all (\<lambda>k. key_class k = 2) keys)"

fun insert_desc :: "alert \<Rightarrow> alert list \<Rightarrow> alert list" where
  "insert_desc a [] = [a]"
| "insert_desc a (b # bs) =
     (if key_lt (alert_timestamp b) (alert_timestamp a) then a # b # bs
      else b # insert_desc a bs)"

definition sort_alerts :: "alert list \<Rightarrow> error + alert list" where
  "sort_alerts xs =
     (if length xs \<le> 1 \<or> comparable (map alert_timestamp xs)
      then Inr (foldl (\<lambda>acc a. insert_desc a acc) [] xs)
      else Inl TypeError)"

text \<open>
  The body of \<open>get_active_alerts\<close> after the four event lists have been fetched.
\<close>

definition get_active_alerts ::
  "event list \<Rightarrow> event list \<Rightarrow> event list \<Rightarrow> event list \<Rightarrow> error + alert_response" where
  "get_active_alerts flares cme_events storms radiation =
     (case process_flares flares [] of
        Inl e \<Rightarrow> Inl e
      | Inr alerts1 \<Rightarrow>
     (case process_cmes cme_events alerts1 of
        Inl e \<Rightarrow> Inl e
      | Inr alerts2 \<Rightarrow>
     (case process_storms storms alerts2 of
        Inl e \<Rightarrow> Inl e
      | Inr alerts3 \<Rightarrow>
     (case sort_alerts (process_radiation radiation alerts3) of
        Inl e \<Rightarrow> Inl e
      | Inr sorted_alerts \<Rightarrow>
          Inr \<lparr> ar_status = ''success'', ar_count = length sorted_alerts,
                ar_alerts = sorted_alerts \<rparr>))))"

section \<open>Properties\<close>

subsection \<open>Upper-casing a character\<close>

lemma upper_char_eq_iff:
  assumes "65 \<le> (of_char u :: nat)" and "(of_char u :: nat) \<le> 90"
  shows "upper_char c = u \<longleftrightarrow> c = u \<or> (of_char c :: nat) = of_char u + 32"
proof (cases "97 \<le> (of_char c :: nat) \<and> (of_char c :: nat) \<le> 122")
  case True
  then have "upper_char c = char_of ((of_char c :: nat) - 32)"
    by (simp add: upper_char_def)
  moreover have "(char_of ((of_char c :: nat) - 32) = u)
      = ((of_char (char_of ((of_char c :: nat) - 32) :: char) :: nat) = of_char u)"
    by (simp only: of_char_eq_iff)
  moreover have "(of_char c :: nat) - 32 < 256" using True by arith
  then have "(of_char (char_of ((of_char c :: nat) - 32) :: char) :: nat) = of_char c - 32"
    by (simp add: of_char_of)
  moreover have "c \<noteq> u" using True assms by auto
  ultimately show ?thesis using True by auto
next
  case False
  then have "upper_char c = c" by (auto simp add: upper_char_def)
  moreover have "(of_char c :: nat) \<noteq> of_char u + 32" using False assms by auto
  ultimately show ?thesis by simp
qed

lemma code_120: "((of_char c :: nat) = 120) = (c = CHR ''x'')"
proof -
  have "((of_char c :: nat) = 120) = ((of_char c :: nat) = of_char (CHR ''x''))" by simp
  then show ?thesis by (simp only: of_char_eq_iff)
qed

lemma code_109: "((of_char c :: nat) = 109) = (c = CHR ''m'')"
proof -
  have "((of_char c :: nat) = 109) = ((of_char c :: nat) = of_char (CHR ''m''))" by simp
  then show ?thesis by (simp only: of_char_eq_iff)
qed

lemma code_99: "((of_char c :: nat) = 99) = (c = CHR ''c'')"
proof -
  have "((of_char c :: nat) = 99) = ((of_char c :: nat) = of_char (CHR ''c''))" by simp
  then show ?thesis by (simp only: of_char_eq_iff)
qed

lemma upper_char_X: "upper_char c = CHR ''X'' \<longleftrightarrow> c = CHR ''X'' \<or> c = CHR ''x''"
  using upper_char_eq_iff [of "CHR ''X''" c] by (simp add: code_120)

lemma upper_char_M: "upper_char c = CHR ''M'' \<longleftrightarrow> c = CHR ''M'' \<or> c = CHR ''m''"
  using upper_char_eq_iff [of "CHR ''M''" c] by (simp add: code_109)

lemma upper_char_C: "upper_char c = CHR ''C'' \<longleftrightarrow> c = CHR ''C'' \<or> c = CHR ''c''"
  using upper_char_eq_iff [of "CHR ''C''" c] by (simp add: code_99)

lemma upper_char_idem: "upper_char (upper_char c) = upper_char c"
proof (cases "97 \<le> (of_char c :: nat) \<and> (of_char c :: nat) \<le> 122")
  case True
  moreover have "(of_char c :: nat) - 32 < 256" using True by arith
  ultimately have "(of_char (upper_char c) :: nat) = of_char c - 32"
    by (simp add: upper_char_def of_char_of)
  then show ?thesis using True by (auto simp add: upper_char_def [of "upper_char c"])
next
  case False
  then show ?thesis by (auto simp add: upper_char_def)
qed

subsection \<open>Flare severity classifier\<close>

lemma classify_flare_severity_str:
  "classify_flare_severity (JStr (c # cs)) =
     Inr (if c = CHR ''X'' \<or> c = CHR ''x'' then ''extreme''
          else if c = CHR ''M'' \<or> c = CHR ''m'' then ''high''
          else if c = CHR ''C'' \<or> c = CHR ''c'' then ''moderate''
          else ''low'')"
  by (simp add: classify_flare_severity_def upper_char_X upper_char_M upper_char_C)

text \<open>
  Claim C8. \<open>classify_flare_severity\<close> returns a tier for every string, never an error.
  On a non-empty string the tier is decided by the first character alone, read without
  regard to case: X gives extreme, M high, C moderate, anything else low. The empty
  string (the default taken for an absent \<open>classType\<close>) and \<open>None\<close> give the sentinel
  unknown, which is not the tier low.
\<close>

theorem classify_flare_severity_first_char:
  "classify_flare_severity JNull = Inr ''unknown''
   \<and> classify_flare_severity (JStr []) = Inr ''unknown''
   \<and> classify_flare_severity (JStr (c # cs)) =
       Inr (if c = CHR ''X'' \<or> c = CHR ''x'' then ''extreme''
            else if c = CHR ''M'' \<or> c = CHR ''m'' then ''high''
            else if c = CHR ''C'' \<or> c = CHR ''c'' then ''moderate''
            else ''low'')
   \<and> classify_flare_severity (JStr (c # cs)) = classify_flare_severity (JStr (c # ds))
   \<and> classify_flare_severity (JStr (upper_char c # cs)) = classify_flare_severity (JStr (c # ds))
   \<and> (\<exists>tier. classify_flare_severity (JStr s) = Inr tier)
   \<and> ''unknown'' \<noteq> ''low''"
proof -
  have a: "classify_flare_severity JNull = Inr ''unknown''"
    by (simp add: classify_flare_severity_def)
  have b: "classify_flare_severity (JStr []) = Inr ''unknown''"
    by (simp add: classify_flare_severity_def)
  have d: "classify_flare_severity (JStr (c # cs)) = classify_flare_severity (JStr (c # ds))"
    by (simp add: classify_flare_severity_def)
  have e: "classify_flare_severity (JStr (upper_char c # cs)) = classify_flare_severity (JStr (c # ds))"
    by (simp add: classify_flare_severity_def upper_char_idem)
  have f: "\<exists>tier. classify_flare_severity (JStr s) = Inr tier"
    by (cases s) (simp_all add: classify_flare_severity_def)
  show ?thesis using a b d e f classify_flare_severity_str [of c cs] by simp
qed

subsection \<open>Flare scorer\<close>

text \<open>
  Claim C1, as the code has it. With no flares, no solar-wind points and no X-ray points
  the three scores are 0.2, 0.5 and 0.5, their weighted sum is
  0.2 * 0.5 + 0.5 * 0.3 + 0.5 * 0.2 = 0.35, and the risk level is LOW.
\<close>

theorem empty_inputs_base_score:
  "calculate_activity_score [] = Inr 0.2
   \<and> analyze_solar_wind [] = 0.5
   \<and> analyze_xray_flux [] = 0.5
   \<and> base_score [] [] [] = Inr 0.35
   \<and> map_sum id risk_level (predict_flare_probability now [] [] []) = Inr ''LOW''"
  by (simp add: calculate_activity_score_def analyze_solar_wind_def analyze_xray_flux_def
      base_score_def predict_flare_probability_def flare_predictions_of_def
      calculate_risk_level_def)

text \<open>The blended score of the empty inputs is not the 0.37 of claim C1.\<close>

theorem empty_inputs_base_score_not_037:
  "base_score [] [] [] \<noteq> Inr 0.37"
  by (simp add: calculate_activity_score_def analyze_solar_wind_def analyze_xray_flux_def
      base_score_def)

text \<open>
  Claim C5. For every base score that is not negative, the probabilities of the three
  flare classes decrease with the class, C \<ge> M \<ge> X, and none exceeds its cap:
  0.95 for C, 0.75 for M, 0.45 for X.
\<close>

theorem class_probabilities_ordered_and_capped:
  assumes "0 \<le> score"
  shows "probability (C_class (predictions (flare_predictions_of now score)))
           \<ge> probability (M_class (predictions (flare_predictions_of now score)))
         \<and> probability (M_class (predictions (flare_predictions_of now score)))
           \<ge> probability (X_class (predictions (flare_predictions_of now score)))
         \<and> probability (C_class (predictions (flare_predictions_of now score))) \<le> 0.95
         \<and> probability (M_class (predictions (flare_predictions_of now score))) \<le> 0.75
         \<and> probability (X_class (predictions (flare_predictions_of now score))) \<le> 0.45"
proof -
  have cm: "min (score * 1.2) 0.95 \<ge> min (score * 0.6) (0.75 :: rat)"
    using assms by (simp add: min_def)
  have mx: "min (score * 0.6) 0.75 \<ge> min (score * 0.3) (0.45 :: rat)"
    using assms by (simp add: min_def)
  have c: "min (score * 1.2) (0.95 :: rat) \<le> 0.95" by (rule min.cobounded2)
  have m: "min (score * 0.6) (0.75 :: rat) \<le> 0.75" by (rule min.cobounded2)
  have x: "min (score * 0.3) (0.45 :: rat) \<le> 0.45" by (rule min.cobounded2)
  show ?thesis using cm mx c m x by (simp add: flare_predictions_of_def)
qed

theorem class_probabilities_ordered_and_capped_witness:
  "probability (C_class (predictions (flare_predictions_of ''t'' 1))) = 0.95
   \<and> probability (M_class (predictions (flare_predictions_of ''t'' 1))) = 0.6
   \<and> probability (X_class (predictions (flare_predictions_of ''t'' 1))) = 0.3
   \<and> probability (C_class (predictions (flare_predictions_of ''t'' 1)))
        \<ge> probability (M_class (predictions (flare_predictions_of ''t'' 1)))
   \<and> probability (M_class (predictions (flare_predictions_of ''t'' 1)))
        \<ge> probability (X_class (predictions (flare_predictions_of ''t'' 1)))"
proof -
  have h: "(0 :: rat) \<le> 1" by simp
  show ?thesis
    using class_probabilities_ordered_and_capped [OF h, of "''t''"]
    by (simp add: flare_predictions_of_def)
qed

subsection \<open>Geomagnetic storm scorer\<close>

text \<open>
  Claim C2, as the code has it. For the Kp history of three rows with values 3, 4 and 5
  (average 4) and no CME incoming, the storm probability is 0.1 and the predicted maximal
  Kp is 5.0; the level is looked up with \<open>predicted_kp >= 5\<close>, which 5.0 satisfies, so
  the storm level is "Moderate (G2-G3)".
\<close>

theorem geomagnetic_storm_kp_3_4_5:
  "map_sum id (\<lambda>r. (storm_probability r, predicted_max_kp r, storm_level r))
     (predict_geomagnetic_storm now
        [JArr [JStr t1, JNum 3], JArr [JStr t2, JNum 4], JArr [JStr t3, JNum 5]] False)
   = Inr (0.1, Some 5, ''Moderate (G2-G3)'')"
  by (simp add: predict_geomagnetic_storm_def kp_value_def mean_def py_round_def
      round_half_even_def Let_def)

text \<open>The storm level of that history is not the "Minor (G1) or None" of claim C2.\<close>

theorem geomagnetic_storm_kp_3_4_5_not_minor:
  "map_sum id storm_level
     (predict_geomagnetic_storm ''2024-05-10T12:00:00''
        [JArr [JStr ''2024-05-10 00:00:00'', JNum 3],
         JArr [JStr ''2024-05-10 03:00:00'', JNum 4],
         JArr [JStr ''2024-05-10 06:00:00'', JNum 5]] False)
   \<noteq> Inr ''Minor (G1) or None''"
  by (simp add: predict_geomagnetic_storm_def kp_value_def mean_def py_round_def
      round_half_even_def Let_def)

subsection \<open>CME arrival estimator\<close>

text \<open>
  Claim C3, as the code has it. For a CME of exactly 2000 km/s whose detection time
  parses and whose arrival time is within the calendar, the impact probability is
  \<open>min((2000 / 2000) * 0.8, 0.95) = 0.8\<close>: the cap of 0.95 is not reached.
\<close>

theorem cme_arrival_speed_2000:
  assumes "replace_Z detection = Inr s"
    and "fromisoformat s = Inr d"
    and "add_timedelta d (timedelta_hours (150000000 / (2000 * 3600))) = Inr a"
  shows "map_sum id impact_probability (predict_cme_arrival 2000 detection) = Inr 0.8"
  using assms
  by (simp add: predict_cme_arrival_def py_round_def round_half_even_def Let_def)

lemma fromisoformat_example:
  "fromisoformat ''2024-05-10T06:54+00:00'' =
     Inr \<lparr> dt_year = 2024, dt_month = 5, dt_day = 10, dt_hour = 6, dt_minute = 54,
           dt_second = 0, dt_utcoffset = Some 0 \<rparr>"
  by code_simp

lemma add_timedelta_example:
  "add_timedelta \<lparr> dt_year = 2024, dt_month = 5, dt_day = 10, dt_hour = 6, dt_minute = 54,
           dt_second = 0, dt_utcoffset = Some 0 \<rparr> (timedelta_hours (150000000 / (2000 * 3600)))
   = Inr \<lparr> micros = 63850995840000000, utcoffset = Some 0 \<rparr>"
  by code_simp

theorem cme_arrival_speed_2000_witness:
  "map_sum id impact_probability (predict_cme_arrival 2000 (JStr ''2024-05-10T06:54Z'')) = Inr 0.8"
proof -
  have r: "replace_Z (JStr ''2024-05-10T06:54Z'') = Inr ''2024-05-10T06:54+00:00''" by simp
  show ?thesis
    by (rule cme_arrival_speed_2000 [OF r fromisoformat_example add_timedelta_example])
qed

lemma cme_arrival_example_value:
  "map_sum id impact_probability (predict_cme_arrival 2000 (JStr ''2024-05-10T06:54Z''))
     = Inr (4 / 5)"
  by code_simp

text \<open>At 2000 km/s the impact probability is not the 0.95 of claim C3.\<close>

theorem cme_arrival_speed_2000_not_095:
  "map_sum id impact_probability (predict_cme_arrival 2000 (JStr ''2024-05-10T06:54Z''))
     \<noteq> Inr 0.95"
  by (simp add: cme_arrival_example_value)

subsection \<open>Aggregator\<close>

text \<open>
  Claim C4 asks that a malformed event field is caught per record and that
  \<open>get_comprehensive_predictions\<close> still returns a result. The code does not do so: for
  a CME faster than 500 km/s whose \<open>startTime\<close> is the empty string, with every other
  input empty, the ValueError of \<open>fromisoformat\<close> leaves \<open>predict_cme_arrival\<close> and
  \<open>get_comprehensive_predictions\<close> uncaught.
\<close>

theorem comprehensive_predictions_raise_on_empty_start_time:
  "get_comprehensive_predictions now1 now2 now3 []
     [[''speed'' \<mapsto> JNum 600, ''startTime'' \<mapsto> JStr []]] [] [] [] = Inl ValueError"
  by (simp add: get_comprehensive_predictions_def predict_flare_probability_def base_score_def
        calculate_activity_score_def predict_geomagnetic_storm_def predict_radiation_storm_def
        latest_cme_arrival_def get_none_def get_def predict_cme_arrival_def fromisoformat_def
        parse_date_def Let_def)

subsection \<open>Radiation storm scorer\<close>

lemma round_half_even_le:
  assumes "x \<le> of_int k"
  shows "round_half_even x \<le> k"
proof -
  have f: "\<lfloor>x\<rfloor> \<le> k" using assms by (simp add: floor_le_iff)
  show ?thesis
  proof (cases "x - of_int \<lfloor>x\<rfloor> < 1 / 2")
    case True
    then show ?thesis using f by (simp add: round_half_even_def Let_def)
  next
    case False
    then have "of_int \<lfloor>x\<rfloor> + 1 / 2 \<le> x" by simp
    then have "(of_int \<lfloor>x\<rfloor> :: rat) < of_int k" using assms by linarith
    then have "\<lfloor>x\<rfloor> + 1 \<le> k" by simp
    then show ?thesis using f by (simp add: round_half_even_def Let_def)
  qed
qed

lemma py_round_2_le_085:
  assumes "x \<le> 0.85"
  shows "py_round x 2 \<le> 0.85"
proof -
  have "x * 100 \<le> of_int 85" using assms by simp
  then have "round_half_even (x * 100) \<le> 85" by (rule round_half_even_le)
  then have "(of_int (round_half_even (x * 100)) :: rat) \<le> 85" by simp
  then show ?thesis by (simp add: py_round_def)
qed

lemma py_round_015: "py_round 0.15 2 = 0.15"
  by (simp add: py_round_def round_half_even_def)

lemma high_energy_flares_filter:
  "high_energy_flares fs = Inr hs \<Longrightarrow>
   hs = filter (\<lambda>f. case get f ''classType'' (JStr []) of
                       JStr (c # cs) \<Rightarrow> c = CHR ''X'' \<or> c = CHR ''M''
                     | _ \<Rightarrow> False) fs"
proof (induction fs arbitrary: hs)
  case Nil
  then show ?case by simp
next
  case (Cons f fs)
  obtain v where v: "get f ''classType'' (JStr []) = v" by simp
  show ?case
  proof (cases v)
    case (JStr s)
    then show ?thesis using Cons v
      by (cases s) (auto simp add: startswith_def split: sum.splits if_splits)
  qed (use Cons v in \<open>auto split: sum.splits\<close>)
qed

lemma lower_class_cases:
  assumes "(case v of JStr (c # cs) \<Rightarrow> c = CHR ''x'' \<or> c = CHR ''m'' | _ \<Rightarrow> False)"
  obtains cs where "v = JStr (CHR ''x'' # cs)" | cs where "v = JStr (CHR ''m'' # cs)"
  using assms by (auto split: jval.splits list.splits)

lemma high_energy_flares_lower:
  "list_all (\<lambda>f. case get f ''classType'' (JStr []) of
                    JStr (c # cs) \<Rightarrow> c = CHR ''x'' \<or> c = CHR ''m''
                  | _ \<Rightarrow> False) fs
   \<Longrightarrow> high_energy_flares fs = Inr []"
proof (induction fs)
  case Nil
  then show ?case by simp
next
  case (Cons f fs)
  then have "(case get f ''classType'' (JStr []) of
                JStr (c # cs) \<Rightarrow> c = CHR ''x'' \<or> c = CHR ''m'' | _ \<Rightarrow> False)" by simp
  then show ?case using Cons
    by (cases rule: lower_class_cases) (simp_all add: startswith_def)
qed

lemma upper_char_x: "upper_char (CHR ''x'') = CHR ''X''"
  by (simp add: upper_char_X)

lemma upper_char_m: "upper_char (CHR ''m'') = CHR ''M''"
  by (simp add: upper_char_M)

lemma count_flares_lower:
  assumes "list_all (\<lambda>f. case get f ''classType'' (JStr []) of
                    JStr (c # cs) \<Rightarrow> c = CHR ''x'' \<or> c = CHR ''m''
                  | _ \<Rightarrow> False) fs"
    and "m0 ''X'' = Some a" and "m0 ''M'' = Some b"
  shows "\<exists>m a' b'. count_flares fs m0 = Inr m \<and> m ''X'' = Some a' \<and> m ''M'' = Some b'
           \<and> a' + b' = a + b + length fs"
  using assms
proof (induction fs arbitrary: m0 a b)
  case Nil
  then show ?case by simp
next
  case (Cons f fs)
  then have l: "list_all (\<lambda>f. case get f ''classType'' (JStr []) of
                    JStr (c # cs) \<Rightarrow> c = CHR ''x'' \<or> c = CHR ''m''
                  | _ \<Rightarrow> False) fs" by simp
  from Cons.prems have "(case get f ''classType'' (JStr []) of
                JStr (c # cs) \<Rightarrow> c = CHR ''x'' \<or> c = CHR ''m'' | _ \<Rightarrow> False)" by simp
  then show ?case
  proof (cases rule: lower_class_cases)
    case (1 cs)
    have "\<exists>m a' b'. count_flares fs (m0(''X'' \<mapsto> a + 1)) = Inr m \<and> m ''X'' = Some a'
            \<and> m ''M'' = Some b' \<and> a' + b' = (a + 1) + b + length fs"
      using Cons.prems by (intro Cons.IH [OF l]) simp_all
    then show ?thesis using 1 Cons.prems by (simp add: upper_char_x)
  next
    case (2 cs)
    have "\<exists>m a' b'. count_flares fs (m0(''M'' \<mapsto> b + 1)) = Inr m \<and> m ''X'' = Some a'
            \<and> m ''M'' = Some b' \<and> a' + b' = a + (b + 1) + length fs"
      using Cons.prems by (intro Cons.IH [OF l]) simp_all
    then show ?thesis using 2 Cons.prems by (simp add: upper_char_m)
  qed
qed

text \<open>
  Claim C10. The radiation scorer selects exactly the flares whose \<open>classType\<close> is a
  string that starts with an upper-case X or M. A list in which every class starts with a
  lower-case x or m therefore takes the branch of no high-energy flare (probability 0.15,
  scale "Below S1"), although the flare scorer, which upper-cases the first character,
  counts every one of those flares as class X or M.
\<close>

theorem radiation_count_is_case_sensitive:
  "(high_energy_flares fs = Inr hs \<longrightarrow>
      hs = filter (\<lambda>f. case get f ''classType'' (JStr []) of
                          JStr (c # cs) \<Rightarrow> c = CHR ''X'' \<or> c = CHR ''M''
                        | _ \<Rightarrow> False) fs)
   \<and> (list_all (\<lambda>f. case get f ''classType'' (JStr []) of
                       JStr (c # cs) \<Rightarrow> c = CHR ''x'' \<or> c = CHR ''m''
                     | _ \<Rightarrow> False) ls \<longrightarrow>
        map_sum id (\<lambda>r. (radiation_storm_probability r, predicted_scale r))
          (predict_radiation_storm now ls) = Inr (0.15, ''Below S1'')
        \<and> (\<exists>m. count_flares ls [''X'' \<mapsto> 0, ''M'' \<mapsto> 0, ''C'' \<mapsto> 0] = Inr m
               \<and> count_at m ''X'' + count_at m ''M'' = of_nat (length ls)))"
proof (intro conjI impI)
  assume "high_energy_flares fs = Inr hs"
  then show "hs = filter (\<lambda>f. case get f ''classType'' (JStr []) of
                          JStr (c # cs) \<Rightarrow> c = CHR ''X'' \<or> c = CHR ''M''
                        | _ \<Rightarrow> False) fs"
    by (rule high_energy_flares_filter)
next
  assume l: "list_all (\<lambda>f. case get f ''classType'' (JStr []) of
                       JStr (c # cs) \<Rightarrow> c = CHR ''x'' \<or> c = CHR ''m''
                     | _ \<Rightarrow> False) ls"
  then have "high_energy_flares ls = Inr []" by (rule high_energy_flares_lower)
  then show "map_sum id (\<lambda>r. (radiation_storm_probability r, predicted_scale r))
          (predict_radiation_storm now ls) = Inr (0.15, ''Below S1'')"
    using py_round_015 by (simp add: predict_radiation_storm_def Let_def)
next
  assume l: "list_all (\<lambda>f. case get f ''classType'' (JStr []) of
                       JStr (c # cs) \<Rightarrow> c = CHR ''x'' \<or> c = CHR ''m''
                     | _ \<Rightarrow> False) ls"
  have "\<exists>m a' b'. count_flares ls [''X'' \<mapsto> 0, ''M'' \<mapsto> 0, ''C'' \<mapsto> 0] = Inr m
          \<and> m ''X'' = Some a' \<and> m ''M'' = Some b' \<and> a' + b' = 0 + 0 + length ls"
    by (rule count_flares_lower [OF l]) simp_all
  then show "\<exists>m. count_flares ls [''X'' \<mapsto> 0, ''M'' \<mapsto> 0, ''C'' \<mapsto> 0] = Inr m
               \<and> count_at m ''X'' + count_at m ''M'' = of_nat (length ls)"
    by (auto simp add: count_at_def simp flip: of_nat_add)
qed

theorem radiation_count_is_case_sensitive_witness:
  "high_energy_flares [[''classType'' \<mapsto> JStr ''X1.0''], [''classType'' \<mapsto> JStr ''x1.0'']]
     = Inr [[''classType'' \<mapsto> JStr ''X1.0'']]
   \<and> map_sum id (\<lambda>r. (radiation_storm_probability r, predicted_scale r))
        (predict_radiation_storm ''t''
           [[''classType'' \<mapsto> JStr ''x1.0''], [''classType'' \<mapsto> JStr ''m5.2'']])
       = Inr (0.15, ''Below S1'')
   \<and> map_sum id (\<lambda>m. (m ''X'', m ''M'', m ''C''))
        (count_flares [[''classType'' \<mapsto> JStr ''x1.0''], [''classType'' \<mapsto> JStr ''m5.2'']]
           [''X'' \<mapsto> 0, ''M'' \<mapsto> 0, ''C'' \<mapsto> 0])
       = Inr (Some 1, Some 1, Some 0)"
proof -
  have a: "high_energy_flares [[''classType'' \<mapsto> JStr ''X1.0''], [''classType'' \<mapsto> JStr ''x1.0'']]
     = Inr [[''classType'' \<mapsto> JStr ''X1.0'']]"
    by (simp add: get_def startswith_def)
  have l: "list_all (\<lambda>f. case get f ''classType'' (JStr []) of
                       JStr (c # cs) \<Rightarrow> c = CHR ''x'' \<or> c = CHR ''m''
                     | _ \<Rightarrow> False)
             [[''classType'' \<mapsto> JStr ''x1.0''], [''classType'' \<mapsto> JStr ''m5.2'']]"
    by (simp add: get_def)
  have c: "map_sum id (\<lambda>m. (m ''X'', m ''M'', m ''C''))
        (count_flares [[''classType'' \<mapsto> JStr ''x1.0''], [''classType'' \<mapsto> JStr ''m5.2'']]
           [''X'' \<mapsto> 0, ''M'' \<mapsto> 0, ''C'' \<mapsto> 0])
       = Inr (Some 1, Some 1, Some 0)"
    by (simp add: get_def upper_char_x upper_char_m)
  show ?thesis
    using a c l
      radiation_count_is_case_sensitive [of
        "[[''classType'' \<mapsto> JStr ''X1.0''], [''classType'' \<mapsto> JStr ''x1.0'']]"
        "[[''classType'' \<mapsto> JStr ''X1.0'']]"
        "[[''classType'' \<mapsto> JStr ''x1.0''], [''classType'' \<mapsto> JStr ''m5.2'']]" "''t''"]
    by simp
qed


subsection \<open>Radiation storm scorer and flares without a class\<close>

lemma high_energy_flares_on_strings:
  assumes "list_all (\<lambda>f. case get f ''classType'' (JStr []) of JStr s \<Rightarrow> True | _ \<Rightarrow> False) fs"
  shows "high_energy_flares fs =
           Inr (filter (\<lambda>f. case get f ''classType'' (JStr []) of
                               JStr (c # cs) \<Rightarrow> c = CHR ''X'' \<or> c = CHR ''M''
                             | _ \<Rightarrow> False) fs)"
  using assms
proof (induction fs)
  case Nil
  then show ?case by simp
next
  case (Cons f fs)
  then obtain s where s: "get f ''classType'' (JStr []) = JStr s"
    by (auto split: jval.splits)
  show ?case using Cons s by (cases s) (simp_all add: startswith_def)
qed

text \<open>
  When the \<open>classType\<close> of every flare is a string or absent, the scorer returns: with
  no flare of class X or M the probability is exactly 0.15, with three or more it is at
  most 0.85.
\<close>

lemma radiation_probability_on_string_classes:
  assumes "list_all (\<lambda>f. case get f ''classType'' (JStr []) of JStr s \<Rightarrow> True | _ \<Rightarrow> False) fs"
  shows "\<exists>r. predict_radiation_storm now fs = Inr r
           \<and> (length (filter (\<lambda>f. case get f ''classType'' (JStr []) of
                                     JStr (c # cs) \<Rightarrow> c = CHR ''X'' \<or> c = CHR ''M''
                                   | _ \<Rightarrow> False) fs) = 0
                \<longrightarrow> radiation_storm_probability r = 0.15)
           \<and> (length (filter (\<lambda>f. case get f ''classType'' (JStr []) of
                                     JStr (c # cs) \<Rightarrow> c = CHR ''X'' \<or> c = CHR ''M''
                                   | _ \<Rightarrow> False) fs) \<ge> 3
                \<longrightarrow> radiation_storm_probability r \<le> 0.85)"
proof -
  define hs where "hs = filter (\<lambda>f. case get f ''classType'' (JStr []) of
                                     JStr (c # cs) \<Rightarrow> c = CHR ''X'' \<or> c = CHR ''M''
                                   | _ \<Rightarrow> False) fs"
  have h: "high_energy_flares fs = Inr hs"
    unfolding hs_def using assms by (rule high_energy_flares_on_strings)
  have z: "py_round 0.15 2 = 0.15" by (rule py_round_015)
  have c: "py_round (min (min (of_nat (length hs) * 0.2) 0.9 * 1.2) 0.85) 2 \<le> 0.85"
    by (rule py_round_2_le_085) (rule min.cobounded2)
  have "\<exists>r. predict_radiation_storm now fs = Inr r
           \<and> (length hs = 0 \<longrightarrow> radiation_storm_probability r = 0.15)
           \<and> (length hs \<ge> 3 \<longrightarrow> radiation_storm_probability r \<le> 0.85)"
    using h z c by (simp add: predict_radiation_storm_def Let_def)
  then show ?thesis unfolding hs_def .
qed

text \<open>
  Claim C6 says that a flare list with no flare of class X or M gets the probability 0.15
  whatever else the flares hold. The code breaks it: for a flare whose \<open>classType\<close> is
  \<open>None\<close> (JSON null), which is not of class X or M, \<open>startswith\<close> is called on
  \<open>None\<close> and the AttributeError leaves \<open>predict_radiation_storm\<close>; the default of
  \<open>get\<close> only covers an absent key. The flare scorer and the severity classifier test
  the class for truth before they read it.
\<close>

theorem radiation_storm_raises_on_null_class:
  "length (filter (\<lambda>f. case get f ''classType'' (JStr []) of
                          JStr (c # cs) \<Rightarrow> c = CHR ''X'' \<or> c = CHR ''M''
                        | _ \<Rightarrow> False) [[''classType'' \<mapsto> JNull]]) = 0
   \<and> predict_radiation_storm now [[''classType'' \<mapsto> JNull]] = Inl AttributeError"
  by (simp add: predict_radiation_storm_def get_def)

subsection \<open>Primary concerns\<close>

text \<open>
  Claim C7. For every flare, geomagnetic and radiation prediction the list of primary
  concerns holds, in this order, the flare concern when the flare risk level is HIGH or
  MODERATE, the geomagnetic concern when the storm probability exceeds 0.5 and the
  radiation concern when the radiation storm probability exceeds 0.5. It is the single
  entry "No significant concerns" exactly when none of the three conditions holds; so it
  is for a MINIMAL flare level with both probabilities 0.1.
\<close>

theorem primary_concerns_order:
  "get_primary_concerns fp gp rp =
     (if risk_level fp \<notin> {''HIGH'', ''MODERATE''} \<and> \<not> storm_probability gp > 0.5
          \<and> \<not> radiation_storm_probability rp > 0.5
      then [''No significant concerns'']
      else (if risk_level fp \<in> {''HIGH'', ''MODERATE''} then [''Solar flare activity''] else [])
         @ (if storm_probability gp > 0.5 then [''Geomagnetic disturbances''] else [])
         @ (if radiation_storm_probability rp > 0.5 then [''Radiation hazards''] else []))
   \<and> ((get_primary_concerns fp gp rp = [''No significant concerns''])
        = (risk_level fp \<notin> {''HIGH'', ''MODERATE''} \<and> \<not> storm_probability gp > 0.5
           \<and> \<not> radiation_storm_probability rp > 0.5))
   \<and> get_primary_concerns (fp\<lparr>risk_level := ''MINIMAL''\<rparr>) (gp\<lparr>storm_probability := 0.1\<rparr>)
         (rp\<lparr>radiation_storm_probability := 0.1\<rparr>) = [''No significant concerns'']"
  by (simp add: get_primary_concerns_def)

subsection \<open>Alert synthesizer\<close>

lemma set_insert_desc: "set (insert_desc a xs) = insert a (set xs)"
  by (induction xs) auto

lemma set_foldl_insert_desc:
  "set (foldl (\<lambda>acc a. insert_desc a acc) acc xs) = set acc \<union> set xs"
  by (induction xs arbitrary: acc) (auto simp add: set_insert_desc)

lemma set_sort_alerts: "sort_alerts xs = Inr ys \<Longrightarrow> set ys = set xs"
  by (auto simp add: sort_alerts_def set_foldl_insert_desc split: if_splits)

lemma process_radiation_append:
  "process_radiation rads acc = acc @ map radiation_alert rads"
  by (induction rads arbitrary: acc) auto

lemma process_flares_result:
  "process_flares fs acc = Inr out \<Longrightarrow>
   \<exists>new. out = acc @ new
     \<and> (\<forall>a \<in> set new. alert_type a = ''solar_flare''
           \<and> (\<exists>f \<in> set fs. a = flare_alert f (alert_severity a)
                 \<and> classify_flare_severity (get f ''classType'' (JStr [])) = Inr (alert_severity a)
                 \<and> alert_severity a \<in> {''high'', ''extreme''}))"
proof (induction fs arbitrary: acc)
  case Nil
  then show ?case by simp
next
  case (Cons f fs)
  from Cons.prems obtain sev where sev: "classify_flare_severity (get f ''classType'' (JStr [])) = Inr sev"
    by (auto split: sum.splits)
  show ?case
  proof (cases "sev \<in> {''high'', ''extreme''}")
    case True
    then have "process_flares fs (acc @ [flare_alert f sev]) = Inr out"
      using Cons.prems sev by auto
    then obtain new where new: "out = (acc @ [flare_alert f sev]) @ new"
      "\<forall>a \<in> set new. alert_type a = ''solar_flare''
           \<and> (\<exists>f \<in> set fs. a = flare_alert f (alert_severity a)
                 \<and> classify_flare_severity (get f ''classType'' (JStr [])) = Inr (alert_severity a)
                 \<and> alert_severity a \<in> {''high'', ''extreme''})"
      using Cons.IH by blast
    have "out = acc @ (flare_alert f sev # new)" using new(1) by simp
    moreover have "\<forall>a \<in> set (flare_alert f sev # new). alert_type a = ''solar_flare''
           \<and> (\<exists>g \<in> set (f # fs). a = flare_alert g (alert_severity a)
                 \<and> classify_flare_severity (get g ''classType'' (JStr [])) = Inr (alert_severity a)
                 \<and> alert_severity a \<in> {''high'', ''extreme''})"
      using new(2) sev True by (auto simp add: flare_alert_def)
    ultimately show ?thesis by blast
  next
    case False
    then have "process_flares fs acc = Inr out" using Cons.prems sev by auto
    then obtain new where new: "out = acc @ new"
      "\<forall>a \<in> set new. alert_type a = ''solar_flare''
           \<and> (\<exists>f \<in> set fs. a = flare_alert f (alert_severity a)
                 \<and> classify_flare_severity (get f ''classType'' (JStr [])) = Inr (alert_severity a)
                 \<and> alert_severity a \<in> {''high'', ''extreme''})"
      using Cons.IH by blast
    then show ?thesis by auto
  qed
qed

lemma process_cmes_result:
  "process_cmes cs acc = Inr out \<Longrightarrow>
   \<exists>new. out = acc @ new \<and> (\<forall>a \<in> set new. alert_type a = ''cme'')"
proof (induction cs arbitrary: acc)
  case Nil
  then show ?case by simp
next
  case (Cons c cs)
  from Cons.prems obtain speed where
    sp: "(if truthy (get_none c ''speed'') then py_float (get c ''speed'' (JNum 0)) else Inr 0)
           = Inr speed"
    by (auto split: sum.splits)
  show ?case
  proof (cases "classify_cme_severity speed \<in> {''high'', ''extreme''}")
    case True
    then have "process_cmes cs (acc @ [cme_alert c speed (classify_cme_severity speed)]) = Inr out"
      using Cons.prems sp by (auto simp add: Let_def)
    then obtain new where
      "out = (acc @ [cme_alert c speed (classify_cme_severity speed)]) @ new"
      "\<forall>a \<in> set new. alert_type a = ''cme''"
      using Cons.IH by blast
    then have "out = acc @ (cme_alert c speed (classify_cme_severity speed) # new)
        \<and> (\<forall>a \<in> set (cme_alert c speed (classify_cme_severity speed) # new). alert_type a = ''cme'')"
      by (simp add: cme_alert_def)
    then show ?thesis by blast
  next
    case False
    then have "process_cmes cs acc = Inr out" using Cons.prems sp by (auto simp add: Let_def)
    then show ?thesis using Cons.IH by blast
  qed
qed

lemma process_storms_result:
  "process_storms ss acc = Inr out \<Longrightarrow>
   \<exists>new. out = acc @ new \<and> (\<forall>a \<in> set new. alert_type a = ''geomagnetic_storm'')"
proof (induction ss arbitrary: acc)
  case Nil
  then show ?case by simp
next
  case (Cons s ss)
  from Cons.prems obtain kp where kp: "storm_kp s = Inr kp"
    by (auto split: sum.splits)
  show ?case
  proof (cases "kp \<ge> 7")
    case True
    then have "process_storms ss (acc @ [storm_alert s kp ''high'']) = Inr out"
      using Cons.prems kp by (auto simp add: Let_def)
    then obtain new where
      "out = (acc @ [storm_alert s kp ''high'']) @ new"
      "\<forall>a \<in> set new. alert_type a = ''geomagnetic_storm''"
      using Cons.IH by blast
    then have "out = acc @ (storm_alert s kp ''high'' # new)
        \<and> (\<forall>a \<in> set (storm_alert s kp ''high'' # new). alert_type a = ''geomagnetic_storm'')"
      by (simp add: storm_alert_def)
    then show ?thesis by blast
  next
    case False
    then have "process_storms ss acc = Inr out"
      using Cons.prems kp by (auto simp add: Let_def split: if_splits)
    then show ?thesis using Cons.IH by blast
  qed
qed

lemma classify_C1: "classify_flare_severity (JStr ''C1.0'') = Inr ''moderate''"
  by (simp add: classify_flare_severity_str)

lemma flare_alert_not_C1:
  assumes "classify_flare_severity (get f ''classType'' (JStr [])) = Inr sev"
    and "sev \<in> {''high'', ''extreme''}"
  shows "title (flare_alert f sev) \<noteq> [Lit ''Solar Flare '', Val (JStr ''C1.0''), Lit '' detected'']"
proof
  assume "title (flare_alert f sev) = [Lit ''Solar Flare '', Val (JStr ''C1.0''), Lit '' detected'']"
  then have "get f ''classType'' (JStr ''Unknown'') = JStr ''C1.0''"
    by (simp add: flare_alert_def)
  then have "get f ''classType'' (JStr []) = JStr ''C1.0''"
    by (auto simp add: get_def split: option.splits)
  then show False using assms classify_C1 by auto
qed

lemma active_alerts_set:
  assumes "get_active_alerts flares cme_events storms radiation = Inr out"
  shows "\<exists>fl cm st.
           process_flares flares [] = Inr fl
         \<and> set (ar_alerts out) = set fl \<union> set cm \<union> set st \<union> radiation_alert ` set radiation
         \<and> (\<forall>a \<in> set cm. alert_type a = ''cme'')
         \<and> (\<forall>a \<in> set st. alert_type a = ''geomagnetic_storm'')"
proof -
  from assms obtain a1 a2 a3 sorted_alerts where
    s1: "process_flares flares [] = Inr a1" and
    s2: "process_cmes cme_events a1 = Inr a2" and
    s3: "process_storms storms a2 = Inr a3" and
    s4: "sort_alerts (process_radiation radiation a3) = Inr sorted_alerts" and
    o: "ar_alerts out = sorted_alerts"
    by (auto simp add: get_active_alerts_def split: sum.splits)
  from process_cmes_result [OF s2] obtain cm where
    cm: "a2 = a1 @ cm" "\<forall>a \<in> set cm. alert_type a = ''cme''" by blast
  from process_storms_result [OF s3] obtain st where
    st: "a3 = a2 @ st" "\<forall>a \<in> set st. alert_type a = ''geomagnetic_storm''" by blast
  have "set sorted_alerts = set (process_radiation radiation a3)"
    using s4 by (rule set_sort_alerts)
  then have "set (ar_alerts out) = set a1 \<union> set cm \<union> set st \<union> radiation_alert ` set radiation"
    using o cm(1) st(1) by (auto simp add: process_radiation_append)
  then show ?thesis using s1 cm(2) st(2) by blast
qed

lemma length_insert_desc: "length (insert_desc a xs) = Suc (length xs)"
  by (induction xs) auto

lemma length_foldl_insert_desc:
  "length (foldl (\<lambda>acc a. insert_desc a acc) acc xs) = length acc + length xs"
  by (induction xs arbitrary: acc) (auto simp add: length_insert_desc)

lemma radiation_only_returns:
  assumes "list_all (\<lambda>r. key_class (get_none r ''eventTime'') = 1) radiation"
  shows "\<exists>out. get_active_alerts [] [] [] radiation = Inr out \<and> ar_count out = length radiation"
proof -
  have "list_all (\<lambda>k. key_class k = 1) (map alert_timestamp (map radiation_alert radiation))"
    using assms by (simp add: list_all_iff radiation_alert_def)
  then have "comparable (map alert_timestamp (map radiation_alert radiation))"
    by (simp add: comparable_def)
  then show ?thesis
    by (simp add: get_active_alerts_def sort_alerts_def process_radiation_append
        length_foldl_insert_desc)
qed

text \<open>
  Whenever the alert synthesizer returns its list, the alert of every radiation event is
  in it, with severity moderate, whatever the event holds; and every flare alert in it
  has severity high or extreme, so none is the alert of a flare of class "C1.0", whose
  severity is moderate.
\<close>

lemma active_alerts_when_returned:
  "(get_active_alerts flares cme_events storms radiation = Inr out \<longrightarrow>
      (\<forall>rad \<in> set radiation.
          radiation_alert rad \<in> set (ar_alerts out)
        \<and> alert_severity (radiation_alert rad) = ''moderate'')
    \<and> (\<forall>a \<in> set (ar_alerts out).
          alert_type a = ''solar_flare'' \<longrightarrow>
          alert_severity a \<in> {''high'', ''extreme''}
        \<and> title a \<noteq> [Lit ''Solar Flare '', Val (JStr ''C1.0''), Lit '' detected'']))
   \<and> classify_flare_severity (JStr ''C1.0'') = Inr ''moderate''
   \<and> get_active_alerts [] [] [] [rad]
       = Inr \<lparr> ar_status = ''success'', ar_count = 1, ar_alerts = [radiation_alert rad] \<rparr>
   \<and> (list_all (\<lambda>r. key_class (get_none r ''eventTime'') = 1) rads \<longrightarrow>
        (\<exists>res. get_active_alerts [] [] [] rads = Inr res \<and> ar_count res = length rads))
   \<and> (get flare ''classType'' (JStr []) = JStr ''C1.0'' \<longrightarrow>
        get_active_alerts [flare] [] [] []
          = Inr \<lparr> ar_status = ''success'', ar_count = 0, ar_alerts = [] \<rparr>)"
proof (intro conjI impI ballI)
  fix r
  assume g: "get_active_alerts flares cme_events storms radiation = Inr out"
    and r: "r \<in> set radiation"
  from active_alerts_set [OF g] r show "radiation_alert r \<in> set (ar_alerts out)" by auto
next
  fix r
  show "alert_severity (radiation_alert r) = ''moderate''" by (simp add: radiation_alert_def)
next
  fix a
  assume g: "get_active_alerts flares cme_events storms radiation = Inr out"
    and a: "a \<in> set (ar_alerts out)" and t: "alert_type a = ''solar_flare''"
  from active_alerts_set [OF g] obtain fl cm st where
    fl: "process_flares flares [] = Inr fl" and
    u: "set (ar_alerts out) = set fl \<union> set cm \<union> set st \<union> radiation_alert ` set radiation" and
    cm: "\<forall>a \<in> set cm. alert_type a = ''cme''" and
    st: "\<forall>a \<in> set st. alert_type a = ''geomagnetic_storm''" by blast
  have "a \<in> set fl" using a t u cm st by (auto simp add: radiation_alert_def)
  moreover from process_flares_result [OF fl] have
    "\<forall>a \<in> set fl. \<exists>f \<in> set flares. a = flare_alert f (alert_severity a)
        \<and> classify_flare_severity (get f ''classType'' (JStr [])) = Inr (alert_severity a)
        \<and> alert_severity a \<in> {''high'', ''extreme''}" by auto
  ultimately obtain f where f: "a = flare_alert f (alert_severity a)"
    "classify_flare_severity (get f ''classType'' (JStr [])) = Inr (alert_severity a)"
    "alert_severity a \<in> {''high'', ''extreme''}" by blast
  show "alert_severity a \<in> {''high'', ''extreme''}" by (rule f(3))
  show "title a \<noteq> [Lit ''Solar Flare '', Val (JStr ''C1.0''), Lit '' detected'']"
    using flare_alert_not_C1 [OF f(2) f(3)] f(1) by simp
next
  show "classify_flare_severity (JStr ''C1.0'') = Inr ''moderate''" by (rule classify_C1)
next
  show "get_active_alerts [] [] [] [rad]
       = Inr \<lparr> ar_status = ''success'', ar_count = 1, ar_alerts = [radiation_alert rad] \<rparr>"
    by (simp add: get_active_alerts_def sort_alerts_def)
next
  assume "list_all (\<lambda>r. key_class (get_none r ''eventTime'') = 1) rads"
  then show "\<exists>res. get_active_alerts [] [] [] rads = Inr res \<and> ar_count res = length rads"
    by (rule radiation_only_returns)
next
  assume "get flare ''classType'' (JStr []) = JStr ''C1.0''"
  then show "get_active_alerts [flare] [] [] []
          = Inr \<lparr> ar_status = ''success'', ar_count = 0, ar_alerts = [] \<rparr>"
    by (simp add: get_active_alerts_def sort_alerts_def classify_C1)
qed

lemma active_alerts_example:
  "get_active_alerts
     [[''classType'' \<mapsto> JStr ''C1.0'', ''beginTime'' \<mapsto> JStr ''2024-05-10T01:00Z''],
      [''classType'' \<mapsto> JStr ''X2.0'', ''beginTime'' \<mapsto> JStr ''2024-05-10T06:00Z'']]
     [] []
     [[''rbeID'' \<mapsto> JStr ''RBE-1'', ''eventTime'' \<mapsto> JStr ''2024-05-11T00:00Z'']]
   = Inr \<lparr> ar_status = ''success'', ar_count = 2,
           ar_alerts =
             [radiation_alert [''rbeID'' \<mapsto> JStr ''RBE-1'', ''eventTime'' \<mapsto> JStr ''2024-05-11T00:00Z''],
              flare_alert [''classType'' \<mapsto> JStr ''X2.0'', ''beginTime'' \<mapsto> JStr ''2024-05-10T06:00Z'']
                ''extreme''] \<rparr>"
  by (simp add: get_active_alerts_def sort_alerts_def comparable_def classify_flare_severity_str
      get_def get_none_def flare_alert_def radiation_alert_def)

lemma process_flares_total:
  assumes "list_all (\<lambda>f. (case get f ''classType'' (JStr []) of
                            JStr s \<Rightarrow> True | JNull \<Rightarrow> True | _ \<Rightarrow> False)
                        \<and> key_class (get_none f ''beginTime'') = 1) fs"
  shows "\<exists>new. process_flares fs acc = Inr (acc @ new)
           \<and> list_all (\<lambda>a. key_class (alert_timestamp a) = 1) new"
  using assms
proof (induction fs arbitrary: acc)
  case Nil
  then show ?case by simp
next
  case (Cons f fs)
  have "\<exists>sev. classify_flare_severity (get f ''classType'' (JStr [])) = Inr sev"
  proof (cases "get f ''classType'' (JStr [])")
    case (JStr s)
    then show ?thesis
      by (cases s) (simp_all add: classify_flare_severity_def)
  next
    case JNull
    then show ?thesis by (simp add: classify_flare_severity_def)
  qed (use Cons.prems in auto)
  then obtain sev where sev: "classify_flare_severity (get f ''classType'' (JStr [])) = Inr sev"
    by blast
  have t: "key_class (alert_timestamp (flare_alert f sev)) = 1"
    using Cons.prems by (simp add: flare_alert_def)
  have rest: "list_all (\<lambda>f. (case get f ''classType'' (JStr []) of
                            JStr s \<Rightarrow> True | JNull \<Rightarrow> True | _ \<Rightarrow> False)
                        \<and> key_class (get_none f ''beginTime'') = 1) fs"
    using Cons.prems by simp
  show ?case
  proof (cases "sev \<in> {''high'', ''extreme''}")
    case True
    from Cons.IH [OF rest, of "acc @ [flare_alert f sev]"] obtain new where
      "process_flares fs (acc @ [flare_alert f sev]) = Inr ((acc @ [flare_alert f sev]) @ new)"
      "list_all (\<lambda>a. key_class (alert_timestamp a) = 1) new" by blast
    then have "process_flares (f # fs) acc = Inr (acc @ (flare_alert f sev # new))
        \<and> list_all (\<lambda>a. key_class (alert_timestamp a) = 1) (flare_alert f sev # new)"
      using sev True t by auto
    then show ?thesis by blast
  next
    case False
    from Cons.IH [OF rest, of acc] obtain new where
      "process_flares fs acc = Inr (acc @ new)"
      "list_all (\<lambda>a. key_class (alert_timestamp a) = 1) new" by blast
    then have "process_flares (f # fs) acc = Inr (acc @ new)
        \<and> list_all (\<lambda>a. key_class (alert_timestamp a) = 1) new"
      using sev False by auto
    then show ?thesis by blast
  qed
qed

lemma cme_speed_value:
  assumes "(case get_none c ''speed'' of JNum r \<Rightarrow> True | JNull \<Rightarrow> True | _ \<Rightarrow> False)"
  shows "\<exists>speed. (if truthy (get_none c ''speed'') then py_float (get c ''speed'' (JNum 0))
                  else Inr 0) = Inr speed"
  using assms by (auto simp add: get_none_def get_def split: option.splits jval.splits)

lemma process_cmes_total:
  assumes "list_all (\<lambda>c. (case get_none c ''speed'' of
                            JNum r \<Rightarrow> True | JNull \<Rightarrow> True | _ \<Rightarrow> False)
                        \<and> key_class (get_none c ''startTime'') = 1) cs"
  shows "\<exists>new. process_cmes cs acc = Inr (acc @ new)
           \<and> list_all (\<lambda>a. key_class (alert_timestamp a) = 1) new"
  using assms
proof (induction cs arbitrary: acc)
  case Nil
  then show ?case by simp
next
  case (Cons c cs)
  then have "(case get_none c ''speed'' of JNum r \<Rightarrow> True | JNull \<Rightarrow> True | _ \<Rightarrow> False)"
    by simp
  from cme_speed_value [OF this] obtain speed where
    sp: "(if truthy (get_none c ''speed'') then py_float (get c ''speed'' (JNum 0))
          else Inr 0) = Inr speed" by blast
  have t: "\<And>sev. key_class (alert_timestamp (cme_alert c speed sev)) = 1"
    using Cons.prems by (simp add: cme_alert_def)
  have rest: "list_all (\<lambda>c. (case get_none c ''speed'' of
                            JNum r \<Rightarrow> True | JNull \<Rightarrow> True | _ \<Rightarrow> False)
                        \<and> key_class (get_none c ''startTime'') = 1) cs"
    using Cons.prems by simp
  show ?case
  proof (cases "classify_cme_severity speed \<in> {''high'', ''extreme''}")
    case True
    from Cons.IH [OF rest, of "acc @ [cme_alert c speed (classify_cme_severity speed)]"]
    obtain new where
      "process_cmes cs (acc @ [cme_alert c speed (classify_cme_severity speed)])
         = Inr ((acc @ [cme_alert c speed (classify_cme_severity speed)]) @ new)"
      "list_all (\<lambda>a. key_class (alert_timestamp a) = 1) new" by blast
    then have "process_cmes (c # cs) acc
          = Inr (acc @ (cme_alert c speed (classify_cme_severity speed) # new))
        \<and> list_all (\<lambda>a. key_class (alert_timestamp a) = 1)
             (cme_alert c speed (classify_cme_severity speed) # new)"
      using sp True t by (auto simp add: Let_def)
    then show ?thesis by blast
  next
    case False
    from Cons.IH [OF rest, of acc] obtain new where
      "process_cmes cs acc = Inr (acc @ new)"
      "list_all (\<lambda>a. key_class (alert_timestamp a) = 1) new" by blast
    then have "process_cmes (c # cs) acc = Inr (acc @ new)
        \<and> list_all (\<lambda>a. key_class (alert_timestamp a) = 1) new"
      using sp False by (auto simp add: Let_def)
    then show ?thesis by blast
  qed
qed

lemma storm_kp_value:
  assumes "(case get_none s ''allKpIndex'' of
              JNull \<Rightarrow> True
            | JArr (JObj kvs # rest) \<Rightarrow>
                (case map_of kvs ''kpIndex'' of
                   None \<Rightarrow> True | Some v \<Rightarrow> key_class v = 2)
            | _ \<Rightarrow> False)"
  shows "\<exists>kp. storm_kp s = Inr kp"
proof -
  have num: "\<And>v. key_class v = 2 \<Longrightarrow> \<exists>kp. py_float v = Inr kp"
  proof -
    fix v assume "key_class v = 2"
    then show "\<exists>kp. py_float v = Inr kp" by (cases v) simp_all
  qed
  show ?thesis
    using assms num
    by (auto simp add: storm_kp_def get_none_def get_def
        split: option.splits jval.splits list.splits)
qed

lemma process_storms_total:
  assumes "list_all (\<lambda>s. (case get_none s ''allKpIndex'' of
                            JNull \<Rightarrow> True
                          | JArr (JObj kvs # rest) \<Rightarrow>
                              (case map_of kvs ''kpIndex'' of
                                 None \<Rightarrow> True | Some v \<Rightarrow> key_class v = 2)
                          | _ \<Rightarrow> False)
                        \<and> key_class (get_none s ''startTime'') = 1) ss"
  shows "\<exists>new. process_storms ss acc = Inr (acc @ new)
           \<and> list_all (\<lambda>a. key_class (alert_timestamp a) = 1) new"
  using assms
proof (induction ss arbitrary: acc)
  case Nil
  then show ?case by simp
next
  case (Cons s ss)
  then have "(case get_none s ''allKpIndex'' of
              JNull \<Rightarrow> True
            | JArr (JObj kvs # rest) \<Rightarrow>
                (case map_of kvs ''kpIndex'' of
                   None \<Rightarrow> True | Some v \<Rightarrow> key_class v = 2)
            | _ \<Rightarrow> False)" by simp
  from storm_kp_value [OF this] obtain kp where kp: "storm_kp s = Inr kp" by blast
  have t: "\<And>sev. key_class (alert_timestamp (storm_alert s kp sev)) = 1"
    using Cons.prems by (simp add: storm_alert_def)
  have rest: "list_all (\<lambda>s. (case get_none s ''allKpIndex'' of
                            JNull \<Rightarrow> True
                          | JArr (JObj kvs # rest) \<Rightarrow>
                              (case map_of kvs ''kpIndex'' of
                                 None \<Rightarrow> True | Some v \<Rightarrow> key_class v = 2)
                          | _ \<Rightarrow> False)
                        \<and> key_class (get_none s ''startTime'') = 1) ss"
    using Cons.prems by simp
  show ?case
  proof (cases "kp \<ge> 7")
    case True
    from Cons.IH [OF rest, of "acc @ [storm_alert s kp ''high'']"] obtain new where
      "process_storms ss (acc @ [storm_alert s kp ''high''])
         = Inr ((acc @ [storm_alert s kp ''high'']) @ new)"
      "list_all (\<lambda>a. key_class (alert_timestamp a) = 1) new" by blast
    then have "process_storms (s # ss) acc = Inr (acc @ (storm_alert s kp ''high'' # new))
        \<and> list_all (\<lambda>a. key_class (alert_timestamp a) = 1) (storm_alert s kp ''high'' # new)"
      using kp True t by (auto simp add: Let_def)
    then show ?thesis by blast
  next
    case False
    from Cons.IH [OF rest, of acc] obtain new where
      "process_storms ss acc = Inr (acc @ new)"
      "list_all (\<lambda>a. key_class (alert_timestamp a) = 1) new" by blast
    then have "process_storms (s # ss) acc = Inr (acc @ new)
        \<and> list_all (\<lambda>a. key_class (alert_timestamp a) = 1) new"
      using kp False by (auto simp add: Let_def split: if_splits)
    then show ?thesis by blast
  qed
qed

text \<open>
  The synthesizer returns, with every radiation event among the alerts, when the events
  are well formed: classes and timestamps are strings, a CME speed is a number or absent,
  and the first entry of a storm's Kp list holds a number or nothing.
\<close>

lemma active_alerts_return_on_well_formed_events:
  assumes fl: "list_all (\<lambda>f. (case get f ''classType'' (JStr []) of
                            JStr s \<Rightarrow> True | JNull \<Rightarrow> True | _ \<Rightarrow> False)
                        \<and> key_class (get_none f ''beginTime'') = 1) flares"
    and cm: "list_all (\<lambda>c. (case get_none c ''speed'' of
                            JNum r \<Rightarrow> True | JNull \<Rightarrow> True | _ \<Rightarrow> False)
                        \<and> key_class (get_none c ''startTime'') = 1) cme_events"
    and st: "list_all (\<lambda>s. (case get_none s ''allKpIndex'' of
                            JNull \<Rightarrow> True
                          | JArr (JObj kvs # rest) \<Rightarrow>
                              (case map_of kvs ''kpIndex'' of
                                 None \<Rightarrow> True | Some v \<Rightarrow> key_class v = 2)
                          | _ \<Rightarrow> False)
                        \<and> key_class (get_none s ''startTime'') = 1) storms"
    and rd: "list_all (\<lambda>r. key_class (get_none r ''eventTime'') = 1) radiation"
  shows "\<exists>out. get_active_alerts flares cme_events storms radiation = Inr out
           \<and> (\<forall>rad \<in> set radiation. radiation_alert rad \<in> set (ar_alerts out))"
proof -
  from process_flares_total [OF fl, of "[]"] obtain a1 where
    a1: "process_flares flares [] = Inr a1"
        "list_all (\<lambda>a. key_class (alert_timestamp a) = 1) a1" by auto
  from process_cmes_total [OF cm, of a1] obtain n2 where
    a2: "process_cmes cme_events a1 = Inr (a1 @ n2)"
        "list_all (\<lambda>a. key_class (alert_timestamp a) = 1) n2" by auto
  from process_storms_total [OF st, of "a1 @ n2"] obtain n3 where
    a3: "process_storms storms (a1 @ n2) = Inr ((a1 @ n2) @ n3)"
        "list_all (\<lambda>a. key_class (alert_timestamp a) = 1) n3" by auto
  have "list_all (\<lambda>a. key_class (alert_timestamp a) = 1) (map radiation_alert radiation)"
    using rd by (simp add: list_all_iff radiation_alert_def)
  then have "list_all (\<lambda>a. key_class (alert_timestamp a) = 1)
               (process_radiation radiation ((a1 @ n2) @ n3))"
    using a1(2) a2(2) a3(2) by (simp add: process_radiation_append)
  then have "comparable (map alert_timestamp (process_radiation radiation ((a1 @ n2) @ n3)))"
    by (simp add: comparable_def list_all_iff)
  then obtain sorted_alerts where
    "sort_alerts (process_radiation radiation ((a1 @ n2) @ n3)) = Inr sorted_alerts"
    by (simp add: sort_alerts_def)
  then obtain out where out: "get_active_alerts flares cme_events storms radiation = Inr out"
    using a1(1) a2(1) a3(1) by (simp add: get_active_alerts_def)
  from active_alerts_set [OF out] have
    "\<forall>rad \<in> set radiation. radiation_alert rad \<in> set (ar_alerts out)" by auto
  then show ?thesis using out by blast
qed

text \<open>
  Claim C9 says that every radiation event is in the output whatever its fields hold. The
  code breaks it for a radiation event without \<open>eventTime\<close>: the alert stores
  \<open>None\<close> under the key \<open>timestamp\<close>, so the default \<open>""\<close> of the sort key is never
  taken, and as soon as the list has a second alert the sort compares \<open>None\<close> and
  raises TypeError: nothing is output. So it is for two radiation events without event
  time, and for one beside the alert of an X-class flare.
\<close>

theorem active_alerts_raise_on_missing_event_time:
  "get_active_alerts [] [] [] [Map.empty, Map.empty] = Inl TypeError
   \<and> get_active_alerts
        [[''classType'' \<mapsto> JStr ''X2.0'', ''beginTime'' \<mapsto> JStr ''2024-05-10T06:00Z'']] [] []
        [[''rbeID'' \<mapsto> JStr ''RBE-1'']] = Inl TypeError"
  by (simp add: get_active_alerts_def sort_alerts_def comparable_def classify_flare_severity_str
      get_def get_none_def flare_alert_def radiation_alert_def)

end
